theory Spec2Isabelle
  imports Complex_Main
begin

section \<open>Data model of \<^verbatim>\<open>MM_flow_analyzer.py\<close>\<close>

text \<open>
  Python exceptions are values of \<open>error\<close>; a function that may raise returns
  \<open>error + 'a\<close> with \<open>Inl\<close> for the exception. Methods that assign attributes of
  \<open>self\<close> take the object and return the updated object next to their result.

  Python and NumPy floats are modelled by real numbers: arithmetic is exact, there is no
  rounding to 32 or 64 bits, no overflow and no signed zero. The special values that the
  modelled operations create from finite inputs (the median or mean of nothing, a quotient
  with divisor zero) are the constructors of \<open>npfloat\<close>.
\<close>

datatype error =
    ValueError string
  | TypeError string
  | KeyError string
  | IndexError
  | AttributeError string
  | NameError string
  | UnboundLocalError string
  | AxisError
  | ZeroDivisionError
  | Exception string

datatype npfloat = Finite real | PosInf | NegInf | NaN

datatype dtype = UInt8 | UInt16 | UInt32 | Float32 | Float64

text \<open>
  A NumPy array is its shape, its element type and its elements in row-major (C) order.
  Assigning to \<^verbatim>\<open>.shape\<close> changes the first field only.
\<close>

record 'a ndarray =
  shape :: "nat list"
  dtype :: dtype
  data :: "'a list"

definition size_of :: "'a ndarray \<Rightarrow> nat" where
  "size_of a = length (data a)"

definition wf_ndarray :: "'a ndarray \<Rightarrow> bool" where
  "wf_ndarray a = (length (data a) = prod_list (shape a))"

text \<open>\<^verbatim>\<open>a[t]\<close> for every \<open>t\<close> along the first axis, each flattened.\<close>

definition frames :: "'a ndarray \<Rightarrow> 'a list list" where
  "frames a =
     (case shape a of
        [] \<Rightarrow> []
      | n # rest \<Rightarrow> map (\<lambda>t. take (prod_list rest) (drop (t * prod_list rest) (data a))) [0..<n])"

text \<open>
  A TIFF page decodes (\<^verbatim>\<open>page.asarray()\<close>) to a two-dimensional image of
  \<open>page_rows\<close> by \<open>page_cols\<close> pixels and carries its elapsed-time stamp.
\<close>

record page =
  page_rows :: nat
  page_cols :: nat
  page_dtype :: dtype
  page_pixels :: "real list"
  ElapsedTime_ms :: real

definition asarray :: "page \<Rightarrow> real ndarray" where
  "asarray p = \<lparr>shape = [page_rows p, page_cols p], dtype = page_dtype p, data = page_pixels p\<rparr>"

text \<open>
  \<^verbatim>\<open>tif.micromanager_metadata\<close>. The keys whose presence depends on the MicroManager
  version are optional: reading an absent one raises \<open>KeyError\<close>.
\<close>

record summary_md =
  MicroManagerVersion :: string
  WaitInterval :: "real option"
  Interval_ms :: "real option"
  Width :: nat
  Height :: nat

record index_map =
  Slice :: "int list"
  Channel :: "int list"

record mm_metadata =
  Summary :: summary_md
  IndexMap :: index_map
  PixelSize_um :: "real option"
  PixelSizeUm :: "real option"

record tiff_file =
  tif_pages :: "page list"
  micromanager_metadata :: mm_metadata

text \<open>
  The attributes of a \<^verbatim>\<open>Channel\<close> object. \<open>ch_scaler\<close> is the attribute
  \<^verbatim>\<open>scaler\<close> that \<^verbatim>\<open>_getScaler\<close> and \<^verbatim>\<open>analyzeFiles\<close> attach to a channel;
  \<open>None\<close> there means the attribute does not exist. In the other optional fields
  \<open>None\<close> is Python's \<^verbatim>\<open>None\<close>.
\<close>

record channel =
  chIndex :: int
  sliceIdx :: int
  tif :: tiff_file
  name :: string
  tif_mm_metadata :: mm_metadata
  pxSize_um :: real
  finterval_ms :: real
  elapsedTimes_ms :: "real list"
  pages :: "page list"
  array :: "real ndarray option"
  actualFrameIntervals_ms :: "real ndarray option"
  medianArray :: "npfloat ndarray option"
  frameSamplingInterval :: "int option"
  ch_scaler :: "npfloat option"

section \<open>Channel construction\<close>

subsection \<open>\<^verbatim>\<open>re.search\<close> for the three version markers\<close>

text \<open>
  \<^verbatim>\<open>re.search(p, s)\<close> finds a match of \<open>p\<close> starting at any position of \<open>s\<close>.
  Version strings are ASCII here, so \<^verbatim>\<open>[\d]\<close> is one of the ten ASCII digits.
\<close>

fun re_search :: "(string \<Rightarrow> bool) \<Rightarrow> string \<Rightarrow> bool" where
  "re_search m [] = m []"
| "re_search m (c # cs) = (m (c # cs) \<or> re_search m cs)"

definition lit :: "string \<Rightarrow> string \<Rightarrow> bool" where
  "lit l s = (take (length l) s = l)"

definition is_digit :: "char \<Rightarrow> bool" where
  "is_digit c = (c \<in> set ''0123456789'')"

fun one4_regex :: "string \<Rightarrow> bool" where
  "one4_regex (a # b # c # d # e # _) =
     (a = CHR ''1'' \<and> b = CHR ''.'' \<and> c = CHR ''4'' \<and> d = CHR ''.'' \<and> is_digit e)"
| "one4_regex _ = False"

definition gamma_regex :: "string \<Rightarrow> bool" where
  "gamma_regex = lit ''gamma''"

definition beta_regex :: "string \<Rightarrow> bool" where
  "beta_regex = lit ''beta''"

subsection \<open>\<^verbatim>\<open>Channel._read_px_size_and_finteval\<close>\<close>

definition lookup :: "string \<Rightarrow> 'a option \<Rightarrow> error + 'a" where
  "lookup k v = (case v of None \<Rightarrow> Inl (KeyError k) | Some x \<Rightarrow> Inr x)"

text \<open>
  The result is \<open>Inr None\<close> where the Python function ends without a
  \<^verbatim>\<open>return\<close> statement and so returns \<^verbatim>\<open>None\<close>.
\<close>

definition read_px_size_and_finteval :: "mm_metadata \<Rightarrow> error + (real \<times> real) option" where
  "read_px_size_and_finteval md =
     (let version = MicroManagerVersion (Summary md) in
      if re_search beta_regex version then
        (case lookup ''WaitInterval'' (WaitInterval (Summary md)) of
           Inl e \<Rightarrow> Inl e
         | Inr finterval \<Rightarrow>
             (case lookup ''PixelSize_um'' (PixelSize_um md) of
                Inl e \<Rightarrow> Inl e
              | Inr px_size \<Rightarrow> Inr (Some (px_size, finterval))))
      else if re_search one4_regex version then
        (case lookup ''Interval_ms'' (Interval_ms (Summary md)) of
           Inl e \<Rightarrow> Inl e
         | Inr finterval \<Rightarrow>
             (case lookup ''PixelSizeUm'' (PixelSizeUm md) of
                Inl e \<Rightarrow> Inl e
              | Inr px_size \<Rightarrow> Inr (Some (px_size, finterval))))
      else if re_search gamma_regex version then
        (case lookup ''Interval_ms'' (Interval_ms (Summary md)) of
           Inl e \<Rightarrow> Inl e
         | Inr finterval \<Rightarrow>
             (case lookup ''PixelSizeUm'' (PixelSizeUm md) of
                Inl e \<Rightarrow> Inl e
              | Inr px_size \<Rightarrow> Inr (Some (px_size, finterval))))
      else Inr None)"

subsection \<open>\<^verbatim>\<open>Channel._page_extractor\<close>\<close>

text \<open>
  The loop over \<^verbatim>\<open>range(len(self.tif.pages))\<close>, given as the list of indices still to
  visit. It returns the retained pages and the elapsed times appended to
  \<^verbatim>\<open>self.elapsedTimes_ms\<close>, which is empty when the loop starts. An index map shorter
  than the page list raises \<open>IndexError\<close>; \<^verbatim>\<open>and\<close> reads the channel map only where
  the slice matches.
\<close>

fun page_extractor_loop ::
  "int list \<Rightarrow> int list \<Rightarrow> page list \<Rightarrow> int \<Rightarrow> int \<Rightarrow> nat list \<Rightarrow> error + (page list \<times> real list)" where
  "page_extractor_loop sliceMap channelMap ps sl ch [] = Inr ([], [])"
| "page_extractor_loop sliceMap channelMap ps sl ch (i # is) =
     (if length sliceMap \<le> i then Inl IndexError
      else if sliceMap ! i = sl then
        (if length channelMap \<le> i then Inl IndexError
         else if channelMap ! i = ch then
           (case page_extractor_loop sliceMap channelMap ps sl ch is of
              Inl e \<Rightarrow> Inl e
            | Inr (out, elapsed) \<Rightarrow> Inr (ps ! i # out, ElapsedTime_ms (ps ! i) # elapsed))
         else page_extractor_loop sliceMap channelMap ps sl ch is)
      else page_extractor_loop sliceMap channelMap ps sl ch is)"

definition page_extractor ::
  "tiff_file \<Rightarrow> mm_metadata \<Rightarrow> int \<Rightarrow> int \<Rightarrow> error + (page list \<times> real list)" where
  "page_extractor tf md sl ch =
     page_extractor_loop (Slice (IndexMap md)) (Channel (IndexMap md)) (tif_pages tf) sl ch
       [0..<length (tif_pages tf)]"

subsection \<open>\<^verbatim>\<open>Channel.__init__\<close>\<close>

text \<open>
  Unpacking \<^verbatim>\<open>None\<close> into \<^verbatim>\<open>self.pxSize_um, self.finterval_ms\<close> raises
  \<open>TypeError\<close>.
\<close>

definition Channel_init :: "int \<Rightarrow> tiff_file \<Rightarrow> string \<Rightarrow> int \<Rightarrow> error + channel" where
  "Channel_init chIdx tiffFile nm sliceIndex =
     (let md = micromanager_metadata tiffFile in
      case read_px_size_and_finteval md of
        Inl e \<Rightarrow> Inl e
      | Inr None \<Rightarrow> Inl (TypeError ''cannot unpack non-iterable NoneType object'')
      | Inr (Some (px, fi)) \<Rightarrow>
          (case page_extractor tiffFile md sliceIndex chIdx of
             Inl e \<Rightarrow> Inl e
           | Inr (ps, elapsed) \<Rightarrow>
               Inr \<lparr>chIndex = chIdx, sliceIdx = sliceIndex, tif = tiffFile, name = nm,
                    tif_mm_metadata = md, pxSize_um = px, finterval_ms = fi,
                    elapsedTimes_ms = elapsed, pages = ps, array = None,
                    actualFrameIntervals_ms = None, medianArray = None,
                    frameSamplingInterval = None, ch_scaler = None\<rparr>))"

section \<open>Materialising the frame stack: \<^verbatim>\<open>Channel.getArray\<close>\<close>

text \<open>
  The truth value that \<^verbatim>\<open>if\<close> asks of an elementwise comparison with
  \<^verbatim>\<open>None\<close>, every element of which is \<open>b\<close> (true for \<^verbatim>\<open>!=\<close>, false for
  \<^verbatim>\<open>==\<close>): \<open>b\<close> when the array has exactly one element, undefined
  (\<open>ValueError\<close>) otherwise, also for an array without elements (NumPy 2.2 and later).
\<close>

definition ambiguous :: error where
  "ambiguous = ValueError ''The truth value of an array is ambiguous''"

definition truth_value :: "'a ndarray \<Rightarrow> bool \<Rightarrow> error + bool" where
  "truth_value a b =
     (if size_of a = 1 then Inr b else Inl ambiguous)"

text \<open>
  \<^verbatim>\<open>out[i] = p\<close> where \<^verbatim>\<open>out[i]\<close> has shape \<open>(R, C)\<close> and \<open>p\<close> is two-dimensional:
  NumPy broadcasts an axis of length one and refuses any other mismatch.
\<close>

definition broadcast_page :: "page \<Rightarrow> nat \<Rightarrow> nat \<Rightarrow> error + real list" where
  "broadcast_page p R C =
     (let r = page_rows p; c = page_cols p in
      if (r = R \<or> r = 1) \<and> (c = C \<or> c = 1) then
        Inr (concat (map (\<lambda>i. map (\<lambda>j. page_pixels p ! ((if r = 1 then 0 else i) * c + (if c = 1 then 0 else j)))
                                  [0..<C]) [0..<R]))
      else Inl (ValueError ''could not broadcast input array''))"

fun fill_pages :: "page list \<Rightarrow> nat \<Rightarrow> nat \<Rightarrow> error + real list" where
  "fill_pages [] R C = Inr []"
| "fill_pages (p # ps) R C =
     (case broadcast_page p R C of
        Inl e \<Rightarrow> Inl e
      | Inr px \<Rightarrow> (case fill_pages ps R C of Inl e \<Rightarrow> Inl e | Inr rest \<Rightarrow> Inr (px @ rest)))"

text \<open>
  The \<^verbatim>\<open>else\<close> branch and the loop of \<^verbatim>\<open>getArray\<close>: the stack is shaped
  \<^verbatim>\<open>(len(self.pages), Width, Height)\<close>, as the source has it, with the element type
  of the first page.
\<close>

definition decode_pages :: "channel \<Rightarrow> error + real ndarray" where
  "decode_pages ch =
     (case pages ch of
        [] \<Rightarrow> Inl IndexError
      | p0 # _ \<Rightarrow>
          (let W = Width (Summary (tif_mm_metadata ch));
               H = Height (Summary (tif_mm_metadata ch)) in
           case fill_pages (pages ch) W H of
             Inl e \<Rightarrow> Inl e
           | Inr px \<Rightarrow> Inr \<lparr>shape = [length (pages ch), W, H], dtype = dtype (asarray p0), data = px\<rparr>))"

text \<open>The method assigns no attribute, so the channel is returned as it came.\<close>

definition getArray :: "channel \<Rightarrow> channel \<times> (error + real ndarray)" where
  "getArray ch =
     (case array ch of
        None \<Rightarrow> (ch, decode_pages ch)
      | Some a \<Rightarrow>
          (case truth_value a True of
             Inl e \<Rightarrow> (ch, Inl e)
           | Inr True \<Rightarrow> (ch, Inr a)
           | Inr False \<Rightarrow> (ch, decode_pages ch)))"

section \<open>Temporal median filter: \<^verbatim>\<open>Channel.getTemporalMedianFilterArray\<close>\<close>

text \<open>
  \<^verbatim>\<open>numpy.median\<close> of a one-dimensional selection: the middle element of the sorted
  values, the mean of the two middle ones when their number is even, NaN when there is
  none.
\<close>

definition np_median :: "real list \<Rightarrow> npfloat" where
  "np_median xs =
     (let n = length xs; s = sort xs in
      if n = 0 then NaN
      else if odd n then Finite (s ! (n div 2))
      else Finite ((s ! (n div 2 - 1) + s ! (n div 2)) / 2))"

text \<open>\<^verbatim>\<open>numpy.median(fs, axis=0)\<close> over a list of frames of \<open>n\<close> pixels each.\<close>

definition median_axis0 :: "real list list \<Rightarrow> nat \<Rightarrow> npfloat list" where
  "median_axis0 fs n = map (\<lambda>p. np_median (map (\<lambda>f. f ! p) fs)) [0..<n]"

text \<open>
  Python's \<^verbatim>\<open>xs[a:b]\<close>: a negative bound counts from the end, both bounds are cut to
  the length, and the slice is empty when the bounds cross.
\<close>

definition slice_bound :: "int \<Rightarrow> nat \<Rightarrow> nat" where
  "slice_bound a n = (if a < 0 then nat (max (a + int n) 0) else min (nat a) n)"

definition py_slice :: "int \<Rightarrow> int \<Rightarrow> 'a list \<Rightarrow> 'a list" where
  "py_slice a b xs =
     (let lo = slice_bound a (length xs); hi = slice_bound b (length xs)
      in take (hi - lo) (drop lo xs))"

text \<open>
  The statements after the cache test. The loop runs over
  \<^verbatim>\<open>range(startFrame, stopFrame - frameSamplingInterval + 1)\<close>, that is the integers
  from \<open>startFrame\<close> to \<open>stopFrame - frameSamplingInterval\<close>, and writes one output frame
  per step. The stack that \<^verbatim>\<open>getArray\<close> returns has three axes unless the
  \<^verbatim>\<open>array\<close> attribute was set by hand; then reading \<^verbatim>\<open>arr.shape[2]\<close> or storing the
  median into the two-dimensional buffer fails (the uninitialised array that the source
  has stored in \<^verbatim>\<open>self.medianArray\<close> by then is not represented).
\<close>

definition compute_median ::
  "channel \<Rightarrow> int \<Rightarrow> int option \<Rightarrow> int \<Rightarrow> channel \<times> (error + npfloat ndarray)" where
  "compute_median ch startFrame stopFrame frameSamplingInterval' =
     (let n = int (length (pages ch));
          stop = (case stopFrame of None \<Rightarrow> n | Some s \<Rightarrow> if s > n then n else s) in
      if startFrame \<ge> stop then
        (ch, Inl (ValueError ''StartFrame cannot be larger than Stopframe!''))
      else if stop - startFrame < frameSamplingInterval' then
        (ch, Inl (ValueError ''Not enough frames selected to do median projection! ''))
      else
        (let ch1 = ch\<lparr>frameSamplingInterval := Some frameSamplingInterval'\<rparr> in
         case getArray ch1 of
           (ch2, Inl e) \<Rightarrow> (ch2, Inl e)
         | (ch2, Inr arr) \<Rightarrow>
             if length (shape arr) < 3 then (ch2, Inl IndexError)
             else if length (shape arr) > 3 then
               (ch2, Inl (ValueError ''output array does not match result of numpy.median''))
             else
               (let nr_outframes = (stop - startFrame) - (frameSamplingInterval' - 1);
                    h = shape arr ! 1;
                    w = shape arr ! 2;
                    out = \<lparr>shape = [nat nr_outframes, h, w], dtype = Float32,
                           data = concat (map (\<lambda>inframe.
                                    median_axis0
                                      (py_slice inframe (inframe + frameSamplingInterval') (frames arr))
                                      (h * w))
                                    [startFrame..stop - frameSamplingInterval'])\<rparr>
                in (ch2\<lparr>medianArray := Some out\<rparr>, Inr out))))"

text \<open>
  The \<^verbatim>\<open>try\<close> block: the cached array is returned when there is one and
  \<^verbatim>\<open>recalculate\<close> is false; the \<open>ValueError\<close> of the truth test is caught and leads
  to the same answer.
\<close>

definition getTemporalMedianFilterArray ::
  "channel \<Rightarrow> int \<Rightarrow> int option \<Rightarrow> int \<Rightarrow> bool \<Rightarrow> channel \<times> (error + npfloat ndarray)" where
  "getTemporalMedianFilterArray ch startFrame stopFrame frameSamplingInterval' recalculate =
     (case medianArray ch of
        None \<Rightarrow> compute_median ch startFrame stopFrame frameSamplingInterval'
      | Some m \<Rightarrow>
          (case truth_value m True of
             Inl e \<Rightarrow>
               if \<not> recalculate then (ch, Inr m)
               else compute_median ch startFrame stopFrame frameSamplingInterval'
           | Inr b \<Rightarrow>
               if b \<and> \<not> recalculate then (ch, Inr m)
               else compute_median ch startFrame stopFrame frameSamplingInterval'))"

section \<open>Frame intervals\<close>

definition np_mean :: "real list \<Rightarrow> npfloat" where
  "np_mean xs = (if xs = [] then NaN else Finite (sum_list xs / real (length xs)))"

fun diffs :: "real \<Rightarrow> real list \<Rightarrow> real list" where
  "diffs t0 [] = []"
| "diffs t0 (t # ts) = (t - t0) # diffs t ts"

definition getActualFrameIntevals_ms :: "channel \<Rightarrow> error + real ndarray option" where
  "getActualFrameIntevals_ms ch =
     (let compute =
            (if length (pages ch) = 1 then Inr None
             else (case elapsedTimes_ms ch of
                     [] \<Rightarrow> Inl IndexError
                   | t0 # ts \<Rightarrow> Inr (Some \<lparr>shape = [length ts], dtype = Float64, data = diffs t0 ts\<rparr>)))
      in case actualFrameIntervals_ms ch of
           None \<Rightarrow> compute
         | Some a \<Rightarrow>
             (case truth_value a True of
                Inl e \<Rightarrow> Inl e
              | Inr True \<Rightarrow> Inr (Some a)
              | Inr False \<Rightarrow> compute))"

definition getIntendedFrameInterval_ms :: "channel \<Rightarrow> real" where
  "getIntendedFrameInterval_ms ch = finterval_ms ch"

text \<open>
  \<^verbatim>\<open>fract\<close> is a NumPy quotient: with a divisor zero or a mean that is NaN it is
  infinite or NaN, and the comparison \<^verbatim>\<open>abs(1-fract) < maxDiff\<close> is false.
\<close>

definition doFrameIntervalSanityCheck :: "channel \<Rightarrow> real \<Rightarrow> error + bool option" where
  "doFrameIntervalSanityCheck ch maxDiff =
     (if length (pages ch) = 1 then Inr None
      else
        (case getActualFrameIntevals_ms ch of
           Inl e \<Rightarrow> Inl e
         | Inr None \<Rightarrow> Inl (AttributeError ''NoneType object has no attribute mean'')
         | Inr (Some a) \<Rightarrow>
             (case np_mean (data a) of
                Finite m \<Rightarrow>
                  if getIntendedFrameInterval_ms ch = 0 then Inr (Some False)
                  else Inr (Some (\<bar>1 - m / getIntendedFrameInterval_ms ch\<bar> < maxDiff))
              | _ \<Rightarrow> Inr (Some False))))"

section \<open>The analyzer\<close>

text \<open>
  A flow array has shape \<open>(t, x, y, 2)\<close>; it is kept as its first three extents and the
  list of \<open>(u, v)\<close> vectors in row-major order.
\<close>

record flow_field =
  flow_t :: nat
  flow_x :: nat
  flow_y :: nat
  uv :: "(real \<times> real) list"

record analyzer =
  channel :: channel
  progress :: real
  flows :: "flow_field option"
  speeds :: "real ndarray option"
  avg_speeds :: "npfloat ndarray option"
  histograms :: "(npfloat ndarray \<times> real list) option"
  drawnFrames :: "real ndarray option"
  scaler :: real

subsection \<open>Floating-point quotients and products that leave the finite numbers\<close>

fun np_divide :: "npfloat \<Rightarrow> npfloat \<Rightarrow> npfloat" where
  "np_divide (Finite a) (Finite b) =
     (if b = 0 then (if a = 0 then NaN else if a > 0 then PosInf else NegInf) else Finite (a / b))"
| "np_divide (Finite a) PosInf = Finite 0"
| "np_divide (Finite a) NegInf = Finite 0"
| "np_divide PosInf (Finite b) = (if b \<ge> 0 then PosInf else NegInf)"
| "np_divide NegInf (Finite b) = (if b \<ge> 0 then NegInf else PosInf)"
| "np_divide _ _ = NaN"

fun np_multiply :: "npfloat \<Rightarrow> npfloat \<Rightarrow> npfloat" where
  "np_multiply (Finite a) (Finite b) = Finite (a * b)"
| "np_multiply (Finite a) PosInf = (if a = 0 then NaN else if a > 0 then PosInf else NegInf)"
| "np_multiply (Finite a) NegInf = (if a = 0 then NaN else if a > 0 then NegInf else PosInf)"
| "np_multiply PosInf (Finite b) = (if b = 0 then NaN else if b > 0 then PosInf else NegInf)"
| "np_multiply NegInf (Finite b) = (if b = 0 then NaN else if b > 0 then NegInf else PosInf)"
| "np_multiply PosInf PosInf = PosInf"
| "np_multiply NegInf NegInf = PosInf"
| "np_multiply PosInf NegInf = NegInf"
| "np_multiply NegInf PosInf = NegInf"
| "np_multiply _ _ = NaN"

text \<open>\<^verbatim>\<open>round(x, 2)\<close>: to the nearest multiple of 1/100, a tie to the even one.\<close>

definition round_half_even :: "real \<Rightarrow> int" where
  "round_half_even x =
     (let f = \<lfloor>x\<rfloor>; d = x - of_int f in
      if d < 1 / 2 then f else if d > 1 / 2 then f + 1 else if even f then f else f + 1)"

fun round2 :: "npfloat \<Rightarrow> npfloat" where
  "round2 (Finite x) = Finite (of_int (round_half_even (x * 100)) / 100)"
| "round2 x = x"

subsection \<open>\<^verbatim>\<open>FarenbackAnalyzer._getScaler\<close> and \<^verbatim>\<open>__init__\<close>\<close>

text \<open>
  \<^verbatim>\<open>not self.channel.doFrameIntervalSanityCheck()\<close> is true for \<^verbatim>\<open>None\<close> and for
  \<^verbatim>\<open>False\<close>. The block it guards stores \<^verbatim>\<open>self.channel.scaler\<close> and then assigns to
  an attribute of \<^verbatim>\<open>Ch0\<close>, a name that is neither a local of the method nor a global of
  the module (it is a local of \<^verbatim>\<open>analyzeFiles\<close>): the lookup raises \<open>NameError\<close>.
  The changed channel is returned next to the result.
\<close>

definition getScaler :: "channel \<Rightarrow> channel \<times> (error + real)" where
  "getScaler ch =
     (case doFrameIntervalSanityCheck ch (1 / 100) of
        Inl e \<Rightarrow> (ch, Inl e)
      | Inr check \<Rightarrow>
          if check = None \<or> check = Some False then
            (case getActualFrameIntevals_ms ch of
               Inl e \<Rightarrow> (ch, Inl e)
             | Inr None \<Rightarrow> (ch, Inl (AttributeError ''NoneType object has no attribute mean''))
             | Inr (Some a) \<Rightarrow>
                 (let finterval_ms' = np_mean (data a);
                      finterval_s = round2 (np_divide finterval_ms' (Finite 1000));
                      frames_per_min = round2 (np_divide (Finite 60) finterval_s);
                      ch1 = ch\<lparr>ch_scaler := Some (np_multiply (Finite (pxSize_um ch)) frames_per_min)\<rparr>
                  in (ch1, Inl (NameError ''Ch0''))))
          else
            (let finterval_s = finterval_ms ch / 1000;
                 frames_per_min = finterval_s / 60
             in (ch, Inr (pxSize_um ch * frames_per_min))))"

definition FarenbackAnalyzer_init :: "channel \<Rightarrow> channel \<times> (error + analyzer)" where
  "FarenbackAnalyzer_init ch =
     (case getScaler ch of
        (ch', Inl e) \<Rightarrow> (ch', Inl e)
      | (ch', Inr s) \<Rightarrow>
          (ch', Inr \<lparr>channel = ch', progress = 0, flows = None, speeds = None, avg_speeds = None,
                     histograms = None, drawnFrames = None, scaler = s\<rparr>))"

subsection \<open>\<^verbatim>\<open>numpy.histogram\<close> and means over two axes\<close>

text \<open>
  \<^verbatim>\<open>numpy.histogram(xs, bins=nbins, range=(lo, hi), density=True)\<close>: the bucket edges
  are \<open>nbins + 1\<close> equally spaced points from \<open>lo\<close> to \<open>hi\<close> (from \<open>lo - 1/2\<close> to
  \<open>hi + 1/2\<close> when \<open>lo = hi\<close>); the values outside the edges are dropped, the last
  bucket contains its right edge, and each count is divided by the bucket width and by
  the number of values kept, which gives NaN when none is kept.
\<close>

definition np_histogram :: "real list \<Rightarrow> int \<Rightarrow> real \<times> real \<Rightarrow> error + (npfloat list \<times> real list)" where
  "np_histogram xs nbins rng =
     (if nbins < 1 then Inl (ValueError ''bins must be positive, when an integer'')
      else if fst rng > snd rng then Inl (ValueError ''max must be larger than min in range parameter.'')
      else
        (let lo = (if fst rng = snd rng then fst rng - 1 / 2 else fst rng);
             hi = (if fst rng = snd rng then snd rng + 1 / 2 else snd rng);
             n = nat nbins;
             edges = map (\<lambda>i. lo + (hi - lo) * real i / real n) [0..<n + 1];
             kept = filter (\<lambda>v. lo \<le> v \<and> v \<le> hi) xs;
             bin_of = (\<lambda>v. if v = hi then n - 1 else nat \<lfloor>(v - lo) / (hi - lo) * real n\<rfloor>);
             counts = map (\<lambda>b. length (filter (\<lambda>v. bin_of v = b) kept)) [0..<n];
             width = (hi - lo) / real n;
             hist = map (\<lambda>c. if kept = [] then NaN else Finite (real c / width / real (length kept))) counts
         in Inr (hist, edges)))"

text \<open>
  \<^verbatim>\<open>a.mean(axis=(k, k+1))\<close>: the two axes
  are averaged away, the others stay in order. The element at index
  \<open>(p, i, j, q)\<close>, with \<open>p\<close> running over the axes before \<open>k\<close> and \<open>q\<close> over those
  after \<open>k + 1\<close>, sits at offset \<open>((p * n + i) * m + j) * r + q\<close>.
\<close>

definition np_mean_axes :: "nat \<Rightarrow> real ndarray \<Rightarrow> error + npfloat ndarray" where
  "np_mean_axes k a =
     (if length (shape a) < k + 2 then Inl AxisError
      else
        (let pre = prod_list (take k (shape a));
             n = shape a ! k;
             m = shape a ! (k + 1);
             r = prod_list (drop (k + 2) (shape a))
         in Inr \<lparr>shape = take k (shape a) @ drop (k + 2) (shape a), dtype = dtype a,
                 data = concat (map (\<lambda>p. map (\<lambda>q.
                           np_mean (concat (map (\<lambda>i. map (\<lambda>j. data a ! (((p * n + i) * m + j) * r + q))
                                                        [0..<m]) [0..<n])))
                           [0..<r]) [0..<pre])\<rparr>))"

text \<open>
  \<^verbatim>\<open>numpy.average(a, axis=(k, k+1))\<close> without weights takes that mean and then
  divides the number of elements of \<open>a\<close> by the number of means, two Python integers:
  with no mean at all this is a \<open>ZeroDivisionError\<close>.
\<close>

definition np_average_axes :: "nat \<Rightarrow> real ndarray \<Rightarrow> error + npfloat ndarray" where
  "np_average_axes k a =
     (case np_mean_axes k a of
        Inl e \<Rightarrow> Inl e
      | Inr avg \<Rightarrow> if size_of avg = 0 then Inl ZeroDivisionError else Inr avg)"

subsection \<open>\<^verbatim>\<open>FarenbackAnalyzer.doFlowsToSpeed\<close>\<close>

text \<open>
  The histogram loop over the frames of the speed array: one call of
  \<^verbatim>\<open>numpy.histogram\<close> per frame, all with the same \<open>nbins\<close> and range; the first
  failing call ends the loop. The result lists what each call returned.
\<close>

fun hist_loop :: "real list list \<Rightarrow> int \<Rightarrow> real \<times> real \<Rightarrow> error + (npfloat list \<times> real list) list" where
  "hist_loop [] nbins rng = Inr []"
| "hist_loop (fr # frs) nbins rng =
     (case np_histogram fr nbins rng of
        Inl e \<Rightarrow> Inl e
      | Inr hist \<Rightarrow> (case hist_loop frs nbins rng of Inl e \<Rightarrow> Inl e | Inr rest \<Rightarrow> Inr (hist # rest)))"

text \<open>
  \<^verbatim>\<open>self.flows == None\<close> raises the exception of the method when there is no flow
  array; on an array the \<open>ValueError\<close> of the truth test is caught and a defined truth
  value is false, so the method goes on. \<^verbatim>\<open>out.max()\<close> fails on an array without
  elements, \<^verbatim>\<open>numpy.ones\<close> on a negative extent, and \<^verbatim>\<open>bins = hist[1]\<close> when the
  loop never assigned \<^verbatim>\<open>hist\<close>. \<^verbatim>\<open>self.speeds\<close> is assigned before the histograms
  are made.
\<close>

definition doFlowsToSpeed ::
  "analyzer \<Rightarrow> real option \<Rightarrow> bool \<Rightarrow> bool \<Rightarrow> int \<Rightarrow> (real \<times> real) option \<Rightarrow> analyzer \<times> (error + real ndarray)" where
  "doFlowsToSpeed self scaler' doAvgSpeed doHist nbins hist_range =
     (let scaler'' = (case scaler' of None \<Rightarrow> scaler self | Some s \<Rightarrow> s) in
      case flows self of
        None \<Rightarrow> (self, Inl (Exception ''No flow calculated, please calculate flow first!''))
      | Some fl \<Rightarrow>
          (let out = \<lparr>shape = [flow_t fl, flow_x fl, flow_y fl], dtype = Float32,
                      data = map (\<lambda>(u, v). sqrt (u\<^sup>2 + v\<^sup>2) * scaler'') (uv fl)\<rparr>;
               self1 = self\<lparr>speeds := Some out\<rparr>;
               with_hist =
                 (if doHist then
                    (case (case hist_range of
                             None \<Rightarrow>
                               if data out = [] then
                                 Inl (ValueError ''zero-size array to reduction operation maximum which has no identity'')
                               else Inr (0, Max (set (data out)))
                           | Some r \<Rightarrow> Inr r) of
                       Inl e \<Rightarrow> Inl e
                     | Inr rng \<Rightarrow>
                         if nbins < 0 then Inl (ValueError ''negative dimensions are not allowed'')
                         else
                           (case hist_loop (frames out) nbins rng of
                              Inl e \<Rightarrow> Inl e
                            | Inr hs \<Rightarrow>
                                if hs = [] then Inl (UnboundLocalError ''hist'')
                                else Inr (self1\<lparr>histograms :=
                                            Some (\<lparr>shape = [flow_t fl, nat nbins], dtype = Float32,
                                                   data = concat (map fst hs)\<rparr>,
                                                  snd (last hs))\<rparr>)))
                  else Inr self1)
           in case with_hist of
                Inl e \<Rightarrow> (self1, Inl e)
              | Inr self2 \<Rightarrow>
                  if doAvgSpeed then
                    (case np_mean_axes 1 out of
                       Inl e \<Rightarrow> (self2, Inl e)
                     | Inr avg \<Rightarrow> (self2\<lparr>avg_speeds := Some avg\<rparr>, Inr out))
                  else (self2, Inr out)))"

subsection \<open>\<^verbatim>\<open>saveSpeedArray\<close> and \<^verbatim>\<open>saveSpeedCSV\<close>\<close>

text \<open>
  \<^verbatim>\<open>saveSpeedArray\<close> reshapes \<^verbatim>\<open>self.speeds\<close> in place to
  \<^verbatim>\<open>(shape[0], 1, 1, shape[1], shape[2], 1)\<close>, which NumPy refuses when the number of
  elements would change, and hands the array to \<^verbatim>\<open>tifffile.imwrite\<close> with the
  resolution \<^verbatim>\<open>1 / self.channel.pxSize_um\<close>, a \<open>ZeroDivisionError\<close> for the pixel
  size zero; the array is reshaped by then. The result is the array written; the file
  name and the ImageJ metadata are left out, and so is what can go wrong in the file
  system.
\<close>

definition saveSpeedArray :: "analyzer \<Rightarrow> analyzer \<times> (error + real ndarray)" where
  "saveSpeedArray self =
     (case speeds self of
        None \<Rightarrow> (self, Inl (AttributeError ''NoneType object has no attribute shape''))
      | Some sp \<Rightarrow>
          if length (shape sp) < 3 then (self, Inl IndexError)
          else
            (let shape' = [shape sp ! 0, 1, 1, shape sp ! 1, shape sp ! 2, 1] in
             if prod_list shape' \<noteq> size_of sp then
               (self, Inl (ValueError ''cannot reshape array''))
             else
               (let sp' = sp\<lparr>shape := shape'\<rparr>;
                    self1 = self\<lparr>speeds := Some sp'\<rparr>
                in if pxSize_um (channel self) = 0 then (self1, Inl ZeroDivisionError)
                   else (self1, Inr (sp'\<lparr>dtype := Float32\<rparr>)))))"

text \<open>
  \<^verbatim>\<open>saveSpeedCSV\<close>: the rows of the data frame written, each the time point in
  seconds and the mean speed of the frame (\<^verbatim>\<open>numpy.average\<close> over the axes 3 and 4
  of an array of six axes, over the axes 1 and 2 otherwise). \<^verbatim>\<open>arr.shape = arr.shape[0]\<close> makes the
  means one-dimensional and fails when their number is not the first extent;
  \<^verbatim>\<open>fr_interval - 1\<close> fails when the channel has no \<^verbatim>\<open>frameSamplingInterval\<close>.
  What can go wrong in the file system is left out.
\<close>

definition saveSpeedCSV :: "analyzer \<Rightarrow> error + (real \<times> npfloat) list" where
  "saveSpeedCSV self =
     (case speeds self of
        None \<Rightarrow> Inl (AttributeError ''NoneType object has no attribute shape'')
      | Some sp \<Rightarrow>
          (case (if length (shape sp) = 6 then np_average_axes 3 sp else np_average_axes 1 sp) of
             Inl e \<Rightarrow> Inl e
           | Inr arr \<Rightarrow>
               (case shape arr of
                  [] \<Rightarrow> Inl IndexError
                | n # _ \<Rightarrow>
                    if size_of arr \<noteq> n then Inl (ValueError ''cannot reshape array'')
                    else
                      (case frameSamplingInterval (channel self) of
                         None \<Rightarrow> Inl (TypeError ''unsupported operand type(s) for -: NoneType and int'')
                       | Some fr_interval \<Rightarrow>
                           (let timepoints_abs =
                                  map (\<lambda>k. (of_int fr_interval - 1 + real k) * finterval_ms (channel self) / 1000)
                                      [0..<n]
                            in Inr (zip timepoints_abs (data arr)))))))"

section \<open>Concrete inputs\<close>

text \<open>
  A container of one-pixel pages, all of slice 0 and channel 0, with pixel size 1 um and
  the given version string and intended frame interval.
\<close>

definition px_page :: "real \<Rightarrow> real \<Rightarrow> page" where
  "px_page v t = \<lparr>page_rows = 1, page_cols = 1, page_dtype = UInt16, page_pixels = [v], ElapsedTime_ms = t\<rparr>"

definition demo_metadata :: "string \<Rightarrow> real \<Rightarrow> nat \<Rightarrow> mm_metadata" where
  "demo_metadata version interval n =
     \<lparr>Summary = \<lparr>MicroManagerVersion = version, WaitInterval = Some interval,
                  Interval_ms = Some interval, Width = 1, Height = 1\<rparr>,
      IndexMap = \<lparr>Slice = replicate n 0, Channel = replicate n 0\<rparr>,
      PixelSize_um = Some 1, PixelSizeUm = Some 1\<rparr>"

definition demo_tif :: "string \<Rightarrow> real \<Rightarrow> page list \<Rightarrow> tiff_file" where
  "demo_tif version interval ps =
     \<lparr>tif_pages = ps, micromanager_metadata = demo_metadata version interval (length ps)\<rparr>"

text \<open>The channel that \<open>Channel_init 0 (demo_tif version interval ps) nm 0\<close> constructs.\<close>

definition demo_channel :: "string \<Rightarrow> real \<Rightarrow> page list \<Rightarrow> channel" where
  "demo_channel version interval ps =
     \<lparr>chIndex = 0, sliceIdx = 0, tif = demo_tif version interval ps, name = ''Ch1'',
      tif_mm_metadata = demo_metadata version interval (length ps), pxSize_um = 1,
      finterval_ms = interval, elapsedTimes_ms = map ElapsedTime_ms ps, pages = ps, array = None,
      actualFrameIntervals_ms = None, medianArray = None, frameSamplingInterval = None,
      ch_scaler = None\<rparr>"

text \<open>A flow array of the given extents with the same vector at every pixel.\<close>

definition uniform_flow :: "nat \<Rightarrow> nat \<Rightarrow> nat \<Rightarrow> real \<times> real \<Rightarrow> flow_field" where
  "uniform_flow t x y v = \<lparr>flow_t = t, flow_x = x, flow_y = y, uv = replicate (t * x * y) v\<rparr>"

text \<open>
  An analyzer as \<open>FarenbackAnalyzer_init\<close> leaves it, with the given scale factor, after
  a flow array has been stored in \<^verbatim>\<open>self.flows\<close> (in the source by
  \<^verbatim>\<open>doFarenbackFlow\<close>, which calls OpenCV).
\<close>

definition demo_analyzer :: "channel \<Rightarrow> real \<Rightarrow> flow_field option \<Rightarrow> analyzer" where
  "demo_analyzer ch s fl =
     \<lparr>channel = ch, progress = 0, flows = fl, speeds = None, avg_speeds = None,
      histograms = None, drawnFrames = None, scaler = s\<rparr>"

section \<open>Channel construction: version markers and page selection\<close>

lemma read_px_no_marker:
  assumes "\<not> re_search beta_regex (MicroManagerVersion (Summary md))"
    and "\<not> re_search one4_regex (MicroManagerVersion (Summary md))"
    and "\<not> re_search gamma_regex (MicroManagerVersion (Summary md))"
  shows "read_px_size_and_finteval md = Inr None"
  using assms by (simp add: read_px_size_and_finteval_def)

lemma Channel_init_no_marker:
  assumes "read_px_size_and_finteval (micromanager_metadata tf) = Inr None"
  shows "Channel_init ci tf nm sl = Inl (TypeError ''cannot unpack non-iterable NoneType object'')"
  using assms by (simp add: Channel_init_def)

text \<open>
  Claim C4 says that a version string with none of the three markers makes the resolution
  of the acquisition parameters fail with an error of its own instead of returning a
  value. The \<^verbatim>\<open>if\<close>/\<^verbatim>\<open>elif\<close> chain of \<^verbatim>\<open>_read_px_size_and_finteval\<close> has no
  last branch: for such a version (\<open>read_px_no_marker\<close>) the method raises nothing and
  returns \<^verbatim>\<open>None\<close>, against its docstring that promises a tuple, and the constructor
  then stops on the \<open>TypeError\<close> of unpacking \<^verbatim>\<open>None\<close>. Here at the version
  \<^verbatim>\<open>2.0.0-alpha1 20180101\<close>.
\<close>

theorem unrecognized_version_returns_None:
  "read_px_size_and_finteval (demo_metadata ''2.0.0-alpha1 20180101'' 1000 1) = Inr None
   \<and> Channel_init 0 (demo_tif ''2.0.0-alpha1 20180101'' 1000 [px_page 10 0]) ''Ch1'' 0
       = Inl (TypeError ''cannot unpack non-iterable NoneType object'')"
  by code_simp

lemma page_extractor_loop_no_match:
  assumes "\<forall>i\<in>set is. i < length sm \<and> i < length cm \<and> \<not> (sm ! i = sl \<and> cm ! i = ci)"
  shows "page_extractor_loop sm cm ps sl ci is = Inr ([], [])"
  using assms by (induction "is") auto

text \<open>
  Claim C8 says that channel extraction fails with an error when no page has both the
  requested slice and the requested channel. As stated it does not hold: the loop of
  \<^verbatim>\<open>_page_extractor\<close> only filters, and the constructor returns a channel without
  pages. Here a container of two pages of channel 0 is asked for channel 1.
\<close>

theorem no_matching_pages_counterexample:
  "Channel_init 1 (demo_tif ''1.4.23 20180220'' 1000 [px_page 10 0, px_page 20 1000]) ''Ch2'' 0
     = Inr ((demo_channel ''1.4.23 20180220'' 1000 [px_page 10 0, px_page 20 1000])
              \<lparr>chIndex := 1, name := ''Ch2'', elapsedTimes_ms := [], pages := []\<rparr>)"
  by code_simp

text \<open>
  Claim C8 as amended: for every container whose version is recognised and whose two
  index maps have one entry per page, when no page has both the requested slice and the
  requested channel, the constructor raises nothing and returns a channel with an empty
  page list and no elapsed times (and the pixel size and frame interval of the metadata).
\<close>

theorem no_matching_pages_empty_channel:
  assumes "read_px_size_and_finteval (micromanager_metadata tf) = Inr (Some (px, fi))"
    and "length (Slice (IndexMap (micromanager_metadata tf))) = length (tif_pages tf)"
    and "length (Channel (IndexMap (micromanager_metadata tf))) = length (tif_pages tf)"
    and "\<forall>i<length (tif_pages tf).
           \<not> (Slice (IndexMap (micromanager_metadata tf)) ! i = sl
              \<and> Channel (IndexMap (micromanager_metadata tf)) ! i = ci)"
  shows "\<exists>ch. Channel_init ci tf nm sl = Inr ch \<and> pages ch = [] \<and> elapsedTimes_ms ch = []
              \<and> pxSize_um ch = px \<and> finterval_ms ch = fi"
proof -
  have "page_extractor tf (micromanager_metadata tf) sl ci = Inr ([], [])"
    unfolding page_extractor_def
    by (rule page_extractor_loop_no_match) (use assms in auto)
  then show ?thesis
    using assms(1) by (simp add: Channel_init_def)
qed

theorem no_matching_pages_empty_channel_witness:
  "\<exists>ch. Channel_init 1 (demo_tif ''1.4.23 20180220'' 1000 [px_page 10 0, px_page 20 1000]) ''Ch2'' 0 = Inr ch
        \<and> pages ch = [] \<and> elapsedTimes_ms ch = [] \<and> pxSize_um ch = 1 \<and> finterval_ms ch = 1000"
proof -
  let ?tf = "demo_tif ''1.4.23 20180220'' 1000 [px_page 10 0, px_page 20 1000]"
  have 1: "read_px_size_and_finteval (micromanager_metadata ?tf) = Inr (Some (1, 1000))"
    by code_simp
  have 2: "length (Slice (IndexMap (micromanager_metadata ?tf))) = length (tif_pages ?tf)"
    by (simp add: demo_tif_def demo_metadata_def)
  have 3: "length (Channel (IndexMap (micromanager_metadata ?tf))) = length (tif_pages ?tf)"
    by (simp add: demo_tif_def demo_metadata_def)
  have 4: "\<forall>i<length (tif_pages ?tf).
           \<not> (Slice (IndexMap (micromanager_metadata ?tf)) ! i = 0
              \<and> Channel (IndexMap (micromanager_metadata ?tf)) ! i = 1)"
    by (simp add: demo_tif_def demo_metadata_def)
  show ?thesis
    using no_matching_pages_empty_channel [OF 1 2 3 4] by simp
qed

section \<open>The frame stack is not cached\<close>

lemma getArray_assigns_nothing: "fst (getArray ch) = ch"
  by (simp add: getArray_def split: option.splits sum.splits bool.splits)

text \<open>
  Claim C9 says that the frame array, once computed, is cached on the channel and that
  later calls return the stored array without decoding again. \<^verbatim>\<open>getArray\<close> tests
  \<^verbatim>\<open>self.array\<close>, and the constructor's comment says that \<^verbatim>\<open>getArray\<close> populates
  it, but the method returns its local \<^verbatim>\<open>out\<close> and assigns no attribute
  (\<open>getArray_assigns_nothing\<close>). Here on a channel of two pages: the call returns the
  decoded stack and leaves \<^verbatim>\<open>array\<close> at \<^verbatim>\<open>None\<close>, so the next call decodes again.
\<close>

theorem getArray_not_cached:
  "getArray (demo_channel ''1.4.23 20180220'' 1000 [px_page 10 0, px_page 20 1000])
     = (demo_channel ''1.4.23 20180220'' 1000 [px_page 10 0, px_page 20 1000],
        Inr \<lparr>shape = [2, 1, 1], dtype = UInt16, data = [10, 20]\<rparr>)
   \<and> array (fst (getArray (demo_channel ''1.4.23 20180220'' 1000 [px_page 10 0, px_page 20 1000]))) = None"
  by code_simp

section \<open>Scale factor and speeds\<close>

lemma getScaler_check_passes:
  assumes "doFrameIntervalSanityCheck ch (1 / 100) = Inr (Some True)"
  shows "getScaler ch = (ch, Inr (pxSize_um ch * (finterval_ms ch / 1000 / 60)))"
  using assms by (simp add: getScaler_def)

lemma getScaler_check_fails:
  assumes "doFrameIntervalSanityCheck ch (1 / 100) = Inr (Some False)"
  shows "snd (getScaler ch) = Inl (NameError ''Ch0'')"
  using assms
  by (auto simp: getScaler_def doFrameIntervalSanityCheck_def Let_def
           split: if_splits sum.splits option.splits npfloat.splits)

text \<open>
  What \<^verbatim>\<open>analyzeFiles\<close> does before it constructs the analyzer: it assigns the mean
  actual interval to \<^verbatim>\<open>finterval_ms\<close> of the channel. When that mean is not zero the
  check then passes and the replacement block of \<^verbatim>\<open>_getScaler\<close> is not entered.
\<close>

lemma getScaler_after_replacement:
  assumes "length (pages ch) \<noteq> 1"
    and "getActualFrameIntevals_ms ch = Inr (Some a)"
    and "np_mean (data a) = Finite m" and "m \<noteq> 0"
  shows "getScaler (ch\<lparr>finterval_ms := m\<rparr>)
           = (ch\<lparr>finterval_ms := m\<rparr>, Inr (pxSize_um ch * (m / 1000 / 60)))"
proof -
  have "getActualFrameIntevals_ms (ch\<lparr>finterval_ms := m\<rparr>) = getActualFrameIntevals_ms ch"
    by (simp add: getActualFrameIntevals_ms_def)
  with assms have "doFrameIntervalSanityCheck (ch\<lparr>finterval_ms := m\<rparr>) (1 / 100) = Inr (Some True)"
    by (simp add: doFrameIntervalSanityCheck_def getIntendedFrameInterval_ms_def)
  then show ?thesis
    by (simp add: getScaler_check_passes)
qed

lemma doFlowsToSpeed_no_flow:
  assumes "flows a = None"
  shows "doFlowsToSpeed a sc avg hist nbins hr =
           (a, Inl (Exception ''No flow calculated, please calculate flow first!''))"
  using assms by (simp add: doFlowsToSpeed_def)

lemma doFlowsToSpeed_plain:
  assumes "flows a = Some fl"
  shows "snd (doFlowsToSpeed a sc False False nbins hr) =
            Inr \<lparr>shape = [flow_t fl, flow_x fl, flow_y fl], dtype = Float32,
                 data = map (\<lambda>(u, v). sqrt (u\<^sup>2 + v\<^sup>2) * (case sc of None \<Rightarrow> scaler a | Some s \<Rightarrow> s)) (uv fl)\<rparr>"
  using assms by (simp add: doFlowsToSpeed_def Let_def)

lemma doFlowsToSpeed_speeds:
  assumes "flows a = Some fl"
  shows "speeds (fst (doFlowsToSpeed a sc avg hist nbins hr)) =
            Some \<lparr>shape = [flow_t fl, flow_x fl, flow_y fl], dtype = Float32,
                 data = map (\<lambda>(u, v). sqrt (u\<^sup>2 + v\<^sup>2) * (case sc of None \<Rightarrow> scaler a | Some s \<Rightarrow> s)) (uv fl)\<rparr>"
  using assms by (simp add: doFlowsToSpeed_def Let_def split: sum.splits option.splits)

lemma doFlowsToSpeed_result:
  assumes "flows a = Some fl" and "snd (doFlowsToSpeed a sc avg hist nbins hr) = Inr r"
  shows "r = \<lparr>shape = [flow_t fl, flow_x fl, flow_y fl], dtype = Float32,
                 data = map (\<lambda>(u, v). sqrt (u\<^sup>2 + v\<^sup>2) * (case sc of None \<Rightarrow> scaler a | Some s \<Rightarrow> s)) (uv fl)\<rparr>"
  using assms by (simp add: doFlowsToSpeed_def Let_def split: sum.splits option.splits if_splits)

lemma default_scaler_uniform_flow:
  assumes "pxSize_um ch = 1" and "finterval_ms ch = 1000"
    and "doFrameIntervalSanityCheck ch (1 / 100) = Inr (Some True)"
  shows "\<exists>a. FarenbackAnalyzer_init ch = (ch, Inr a) \<and> scaler a = 1 / 60
            \<and> snd (doFlowsToSpeed (a\<lparr>flows := Some (uniform_flow t x y (2, 0))\<rparr>) None False False nbins hr)
                = Inr \<lparr>shape = [t, x, y], dtype = Float32, data = replicate (t * x * y) (1 / 30)\<rparr>"
  using assms
  by (simp add: FarenbackAnalyzer_init_def getScaler_check_passes doFlowsToSpeed_plain uniform_flow_def)

text \<open>
  Claim C1 says that, for a channel with pixel size 1 um and frame interval 1000 ms that
  passes the sanity check, the scale factor computed at construction turns pixels per
  frame into um per minute, so that a flow of \<open>(2, 0)\<close> pixels per frame everywhere
  becomes the speed 120 everywhere. \<^verbatim>\<open>_getScaler\<close> computes
  \<^verbatim>\<open>frames_per_min = finterval_s / 60\<close>, where its docstring (um/px * frames/min *
  px/frame = um/min) and the same computation in \<^verbatim>\<open>analyzeFiles\<close> and in its own
  replacement block (\<^verbatim>\<open>60 / finterval_s\<close>) have the quotient the other way round.
  Here on a channel of three pages taken 1000 ms apart: the scale factor is 1/60 instead
  of 60 and the speed is 1/30 everywhere (\<open>default_scaler_uniform_flow\<close> has it for
  every such channel and every extent of the flow array).
\<close>

theorem default_scaler_is_inverted:
  "\<exists>a. FarenbackAnalyzer_init (demo_channel ''1.4.23 20180220'' 1000 [px_page 10 0, px_page 20 1000, px_page 30 2000])
         = (demo_channel ''1.4.23 20180220'' 1000 [px_page 10 0, px_page 20 1000, px_page 30 2000], Inr a)
       \<and> scaler a = 1 / 60
       \<and> snd (doFlowsToSpeed (a\<lparr>flows := Some (uniform_flow 2 2 2 (2, 0))\<rparr>) None False False 10 None)
           = Inr \<lparr>shape = [2, 2, 2], dtype = Float32, data = replicate 8 (1 / 30)\<rparr>"
  by (simp add: FarenbackAnalyzer_init_def getScaler_def doFrameIntervalSanityCheck_def
        getActualFrameIntevals_ms_def getIntendedFrameInterval_ms_def np_mean_def
        demo_channel_def px_page_def doFlowsToSpeed_def uniform_flow_def Let_def numeral_eq_Suc)

text \<open>
  Claim C3 says that, for a channel of at least two pages whose mean actual frame
  interval is further from the intended one than the tolerance, the scale factor is
  computed from the actual mean interval. \<^verbatim>\<open>_getScaler\<close> has a block for this case
  (it prints that it replaces the intended interval with the actual one), but the block
  ends by assigning to \<^verbatim>\<open>Ch0.finterval_ms\<close>, and \<^verbatim>\<open>Ch0\<close> is a local variable of
  \<^verbatim>\<open>analyzeFiles\<close>, from where the block was taken: the constructor of the analyzer
  stops on a \<open>NameError\<close> and there is no scale factor at all
  (\<open>getScaler_check_fails\<close>, for every channel that fails the check). Here on a channel
  with intended interval 1000 ms and pages taken 1200 ms apart; the only trace of the
  actual interval is the attribute \<^verbatim>\<open>scaler\<close> = 50 left on the channel, which nothing
  reads.
\<close>

theorem replacement_block_raises_NameError:
  "FarenbackAnalyzer_init (demo_channel ''1.4.23 20180220'' 1000 [px_page 10 0, px_page 20 1200, px_page 30 2400])
     = ((demo_channel ''1.4.23 20180220'' 1000 [px_page 10 0, px_page 20 1200, px_page 30 2400])
          \<lparr>ch_scaler := Some (Finite 50)\<rparr>,
        Inl (NameError ''Ch0''))"
  by code_simp

text \<open>
  Claim C7: \<^verbatim>\<open>doFlowsToSpeed\<close> fails when no flow array has been computed; otherwise
  the speed at each pixel is the Euclidean norm of the displacement vector there times
  the scale factor (the argument \<^verbatim>\<open>scaler\<close>, by default the analyzer's own), whatever
  the histogram and average options, and this array is what the call stores in
  \<^verbatim>\<open>self.speeds\<close> and returns when it returns; a flow of \<open>(3, 4)\<close> everywhere with
  scale factor 1 gives the speed 5 everywhere.
\<close>

theorem doFlowsToSpeed_euclidean_norm:
  "(flows a = None \<longrightarrow>
      snd (doFlowsToSpeed a sc avg hist nbins hr)
        = Inl (Exception ''No flow calculated, please calculate flow first!''))
   \<and> (\<forall>fl. flows a = Some fl \<longrightarrow>
        (\<exists>out. speeds (fst (doFlowsToSpeed a sc avg hist nbins hr)) = Some out
            \<and> snd (doFlowsToSpeed a sc False False nbins hr) = Inr out
            \<and> (\<forall>r. snd (doFlowsToSpeed a sc avg hist nbins hr) = Inr r \<longrightarrow> r = out)
            \<and> shape out = [flow_t fl, flow_x fl, flow_y fl]
            \<and> length (data out) = length (uv fl)
            \<and> (\<forall>i<length (uv fl).
                  data out ! i = sqrt ((fst (uv fl ! i))\<^sup>2 + (snd (uv fl ! i))\<^sup>2)
                                   * (case sc of None \<Rightarrow> scaler a | Some s \<Rightarrow> s))))
   \<and> (flows a = Some (uniform_flow t x y (3, 4)) \<longrightarrow>
        snd (doFlowsToSpeed a (Some 1) False False nbins hr)
          = Inr \<lparr>shape = [t, x, y], dtype = Float32, data = replicate (t * x * y) 5\<rparr>)"
proof (intro conjI allI impI)
  assume "flows a = None"
  then show "snd (doFlowsToSpeed a sc avg hist nbins hr)
        = Inl (Exception ''No flow calculated, please calculate flow first!'')"
    by (simp add: doFlowsToSpeed_no_flow)
next
  fix fl assume fl: "flows a = Some fl"
  let ?out = "\<lparr>shape = [flow_t fl, flow_x fl, flow_y fl], dtype = Float32,
                 data = map (\<lambda>(u, v). sqrt (u\<^sup>2 + v\<^sup>2) * (case sc of None \<Rightarrow> scaler a | Some s \<Rightarrow> s)) (uv fl)\<rparr>"
  have "speeds (fst (doFlowsToSpeed a sc avg hist nbins hr)) = Some ?out"
    by (rule doFlowsToSpeed_speeds [OF fl])
  moreover have "snd (doFlowsToSpeed a sc False False nbins hr) = Inr ?out"
    by (rule doFlowsToSpeed_plain [OF fl])
  moreover have "\<forall>r. snd (doFlowsToSpeed a sc avg hist nbins hr) = Inr r \<longrightarrow> r = ?out"
    using doFlowsToSpeed_result [OF fl] by blast
  moreover have "\<forall>i<length (uv fl).
                  data ?out ! i = sqrt ((fst (uv fl ! i))\<^sup>2 + (snd (uv fl ! i))\<^sup>2)
                                   * (case sc of None \<Rightarrow> scaler a | Some s \<Rightarrow> s)"
    by (simp add: case_prod_beta)
  ultimately show "\<exists>out. speeds (fst (doFlowsToSpeed a sc avg hist nbins hr)) = Some out
            \<and> snd (doFlowsToSpeed a sc False False nbins hr) = Inr out
            \<and> (\<forall>r. snd (doFlowsToSpeed a sc avg hist nbins hr) = Inr r \<longrightarrow> r = out)
            \<and> shape out = [flow_t fl, flow_x fl, flow_y fl]
            \<and> length (data out) = length (uv fl)
            \<and> (\<forall>i<length (uv fl).
                  data out ! i = sqrt ((fst (uv fl ! i))\<^sup>2 + (snd (uv fl ! i))\<^sup>2)
                                   * (case sc of None \<Rightarrow> scaler a | Some s \<Rightarrow> s))"
    by (intro exI [of _ ?out]) simp
next
  assume "flows a = Some (uniform_flow t x y (3, 4))"
  then show "snd (doFlowsToSpeed a (Some 1) False False nbins hr)
          = Inr \<lparr>shape = [t, x, y], dtype = Float32, data = replicate (t * x * y) 5\<rparr>"
    by (simp add: doFlowsToSpeed_plain uniform_flow_def)
qed

theorem doFlowsToSpeed_euclidean_norm_witness:
  "snd (doFlowsToSpeed (demo_analyzer (demo_channel ''1.4.23 20180220'' 1000 [px_page 10 0, px_page 20 1000]) 1 None)
          None False True 10 None)
     = Inl (Exception ''No flow calculated, please calculate flow first!'')
   \<and> snd (doFlowsToSpeed (demo_analyzer (demo_channel ''1.4.23 20180220'' 1000 [px_page 10 0, px_page 20 1000]) 7
                          (Some (uniform_flow 1 2 2 (3, 4))))
          (Some 1) False False 10 None)
     = Inr \<lparr>shape = [1, 2, 2], dtype = Float32, data = [5, 5, 5, 5]\<rparr>
   \<and> (\<exists>out. speeds (fst (doFlowsToSpeed (demo_analyzer (demo_channel ''1.4.23 20180220'' 1000 [px_page 10 0, px_page 20 1000]) 7
                          (Some \<lparr>flow_t = 1, flow_x = 1, flow_y = 2, uv = [(3, 4), (0, 2)]\<rparr>))
          None True True 4 None)) = Some out
         \<and> shape out = [1, 1, 2] \<and> data out ! 0 = 35 \<and> data out ! 1 = 14)"
proof -
  let ?ch = "demo_channel ''1.4.23 20180220'' 1000 [px_page 10 0, px_page 20 1000]"
  let ?fl = "\<lparr>flow_t = 1, flow_x = 1, flow_y = 2, uv = [(3, 4), (0, 2)]\<rparr>"
  have 1: "flows (demo_analyzer ?ch 1 None) = None"
    by (simp add: demo_analyzer_def)
  have 2: "flows (demo_analyzer ?ch 7 (Some (uniform_flow 1 2 2 (3, 4)))) = Some (uniform_flow 1 2 2 (3, 4))"
    by (simp add: demo_analyzer_def)
  have 3: "flows (demo_analyzer ?ch 7 (Some ?fl)) = Some ?fl"
    by (simp add: demo_analyzer_def)
  have a: "snd (doFlowsToSpeed (demo_analyzer ?ch 1 None) None False True 10 None)
     = Inl (Exception ''No flow calculated, please calculate flow first!'')"
    using doFlowsToSpeed_euclidean_norm [of "demo_analyzer ?ch 1 None" None False True 10 None] 1
    by blast
  have b: "snd (doFlowsToSpeed (demo_analyzer ?ch 7 (Some (uniform_flow 1 2 2 (3, 4)))) (Some 1) False False 10 None)
     = Inr \<lparr>shape = [1, 2, 2], dtype = Float32, data = [5, 5, 5, 5]\<rparr>"
    using doFlowsToSpeed_euclidean_norm [of "demo_analyzer ?ch 7 (Some (uniform_flow 1 2 2 (3, 4)))" _ _ _ 10 None 1 2 2] 2
    by (simp add: numeral_eq_Suc)
  note c = doFlowsToSpeed_euclidean_norm [of "demo_analyzer ?ch 7 (Some ?fl)" None True True 4 None,
      THEN conjunct2, THEN conjunct1, rule_format, OF 3]
  then obtain out where o: "speeds (fst (doFlowsToSpeed (demo_analyzer ?ch 7 (Some ?fl)) None True True 4 None)) = Some out"
    and s: "shape out = [flow_t ?fl, flow_x ?fl, flow_y ?fl]"
    and d: "\<forall>i<length (uv ?fl). data out ! i = sqrt ((fst (uv ?fl ! i))\<^sup>2 + (snd (uv ?fl ! i))\<^sup>2)
                                   * (case None of None \<Rightarrow> scaler (demo_analyzer ?ch 7 (Some ?fl)) | Some s \<Rightarrow> s)"
    by blast
  from d have "data out ! 0 = 35" "data out ! 1 = 14"
    by (simp_all add: demo_analyzer_def)
  with o s a b show ?thesis by simp
qed


section \<open>Lists cut into parts of one length\<close>

lemma concat_map_nth_uniform:
  assumes "\<forall>x\<in>set xs. length (f x) = c" and "k < length xs" and "p < c"
  shows "concat (map f xs) ! (k * c + p) = f (xs ! k) ! p"
  using assms
proof (induction xs arbitrary: k)
  case Nil
  then show ?case by simp
next
  case (Cons x xs)
  show ?case
  proof (cases k)
    case 0
    with Cons.prems show ?thesis by (simp add: nth_append)
  next
    case (Suc k')
    with Cons.prems have "concat (map f xs) ! (k' * c + p) = f (xs ! k') ! p"
      by (intro Cons.IH) simp_all
    with Suc Cons.prems show ?thesis by (simp add: nth_append)
  qed
qed

lemma concat_map_length_uniform:
  assumes "\<forall>x\<in>set xs. length (f x) = c"
  shows "length (concat (map f xs)) = length xs * c"
  using assms by (induction xs) simp_all

lemma concat_take_drop_uniform:
  assumes "\<forall>x\<in>set xs. length (f x) = c" and "k < length xs"
  shows "take c (drop (k * c) (concat (map f xs))) = f (xs ! k)"
  using assms
proof (induction xs arbitrary: k)
  case Nil
  then show ?case by simp
next
  case (Cons x xs)
  show ?case
  proof (cases k)
    case 0
    with Cons.prems show ?thesis by simp
  next
    case (Suc k')
    with Cons.prems have "take c (drop (k' * c) (concat (map f xs))) = f (xs ! k')"
      by (intro Cons.IH) simp_all
    with Suc Cons.prems show ?thesis by simp
  qed
qed

section \<open>Histograms of the speed array\<close>

lemma np_histogram_edges:
  assumes "np_histogram xs nbins rng = Inr (h, e)" and "np_histogram ys nbins rng = Inr (h', e')"
  shows "e = e'"
  using assms by (auto simp: np_histogram_def Let_def split: if_splits)

lemma hist_loop_nth:
  assumes "hist_loop frs nbins rng = Inr hs"
  shows "length hs = length frs \<and> (\<forall>i<length frs. np_histogram (frs ! i) nbins rng = Inr (hs ! i))"
  using assms
proof (induction frs arbitrary: hs)
  case Nil
  then show ?case by simp
next
  case (Cons fr frs)
  from Cons.prems obtain h rest where h: "np_histogram fr nbins rng = Inr h"
    and rest: "hist_loop frs nbins rng = Inr rest" and hs: "hs = h # rest"
    by (auto split: sum.splits)
  from Cons.IH [OF rest] have len: "length rest = length frs"
    and nth: "\<forall>i<length frs. np_histogram (frs ! i) nbins rng = Inr (rest ! i)"
    by simp_all
  show ?case
  proof (intro conjI allI impI)
    show "length hs = length (fr # frs)" using hs len by simp
  next
    fix i assume "i < length (fr # frs)"
    then show "np_histogram ((fr # frs) ! i) nbins rng = Inr (hs ! i)"
      using h nth hs by (cases i) simp_all
  qed
qed

lemma hist_loop_same_edges:
  assumes "hist_loop frs nbins rng = Inr hs" and "hs \<noteq> []" and "i < length frs"
  shows "\<exists>h. np_histogram (frs ! i) nbins rng = Inr (h, snd (last hs))"
proof -
  from hist_loop_nth [OF assms(1)] have len: "length hs = length frs"
    and nth: "\<forall>i<length frs. np_histogram (frs ! i) nbins rng = Inr (hs ! i)"
    by simp_all
  from assms(2) len have l: "length frs - 1 < length frs" by (cases frs) auto
  from nth l have last: "np_histogram (frs ! (length frs - 1)) nbins rng = Inr (hs ! (length frs - 1))" by blast
  from nth assms(3) have ith: "np_histogram (frs ! i) nbins rng = Inr (hs ! i)" by blast
  have "hs ! (length frs - 1) = last hs" using assms(2) len by (simp add: last_conv_nth)
  with last have "np_histogram (frs ! (length frs - 1)) nbins rng = Inr (fst (last hs), snd (last hs))" by simp
  moreover from ith have "np_histogram (frs ! i) nbins rng = Inr (fst (hs ! i), snd (hs ! i))" by simp
  ultimately have "snd (hs ! i) = snd (last hs)" by (rule np_histogram_edges [OF _ _, symmetric])
  with ith show ?thesis by (metis prod.collapse)
qed

lemma np_histogram_result:
  assumes "np_histogram xs nbins rng = Inr (h, e)"
  shows "1 \<le> nbins" and "length h = nat nbins"
    and "e = map (\<lambda>j. (if fst rng = snd rng then fst rng - 1 / 2 else fst rng)
                      + ((if fst rng = snd rng then snd rng + 1 / 2 else snd rng)
                         - (if fst rng = snd rng then fst rng - 1 / 2 else fst rng)) * real j / real (nat nbins))
                 [0..<nat nbins + 1]"
  using assms by (auto simp: np_histogram_def Let_def split: if_splits)

lemma doFlowsToSpeed_hist_default:
  assumes "snd (doFlowsToSpeed a sc avg True nbins None) = Inr out"
  shows "\<exists>fl hs. flows a = Some fl \<and> data out \<noteq> [] \<and> hs \<noteq> []
           \<and> shape out = [flow_t fl, flow_x fl, flow_y fl]
           \<and> hist_loop (frames out) nbins (0, Max (set (data out))) = Inr hs
           \<and> histograms (fst (doFlowsToSpeed a sc avg True nbins None))
               = Some (\<lparr>shape = [flow_t fl, nat nbins], dtype = Float32, data = concat (map fst hs)\<rparr>,
                       snd (last hs))"
proof (cases "flows a")
  case None
  with assms show ?thesis by (simp add: doFlowsToSpeed_def)
next
  case (Some fl)
  let ?out = "\<lparr>shape = [flow_t fl, flow_x fl, flow_y fl], dtype = Float32,
                 data = map (\<lambda>(u, v). sqrt (u\<^sup>2 + v\<^sup>2) * (case sc of None \<Rightarrow> scaler a | Some s \<Rightarrow> s)) (uv fl)\<rparr>"
  have out: "out = ?out"
    using assms Some by (simp add: doFlowsToSpeed_def Let_def split: sum.splits option.splits if_splits)
  show ?thesis
    using assms Some unfolding out
    by (simp add: doFlowsToSpeed_def Let_def split: sum.splits option.splits if_splits)
qed

lemma demo_histogram_1: "np_histogram [10, 1] 2 (0, 10) = Inr ([Finite (1 / 10), Finite (1 / 10)], [0, 5, 10])"
  by code_simp

lemma demo_histogram_2: "np_histogram [4, 2] 2 (0, 10) = Inr ([Finite (1 / 5), Finite 0], [0, 5, 10])"
  by code_simp

lemma demo_frames: "frames \<lparr>shape = [2, 1, 2], dtype = Float32, data = [10, 1, 4, 2::real]\<rparr> = [[10, 1], [4, 2]]"
  by code_simp

lemma demo_speeds:
  "map (\<lambda>(u, v). sqrt (u\<^sup>2 + v\<^sup>2) * 1) [(6, 8), (0, 1), (0, 4), (0, 2)] = [10, 1, 4, 2::real]"
proof -
  have "sqrt 100 = 10" "sqrt 16 = 4" "sqrt 4 = 2"
    using real_sqrt_abs [of 10] real_sqrt_abs [of 4] real_sqrt_abs [of 2] by simp_all
  then show ?thesis by simp
qed

lemma demo_doFlowsToSpeed:
  "snd (doFlowsToSpeed (demo_analyzer (demo_channel ''1.4.23 20180220'' 1000 [px_page 10 0, px_page 20 1000]) 1
                          (Some \<lparr>flow_t = 2, flow_x = 1, flow_y = 2, uv = [(6, 8), (0, 1), (0, 4), (0, 2)]\<rparr>))
          None False True 2 None)
     = Inr \<lparr>shape = [2, 1, 2], dtype = Float32, data = [10, 1, 4, 2]\<rparr>"
  unfolding doFlowsToSpeed_def demo_analyzer_def
  by (simp add: Let_def demo_speeds demo_frames [unfolded One_nat_def] demo_histogram_1 demo_histogram_2)

text \<open>
  Claim C6: whenever \<^verbatim>\<open>doFlowsToSpeed\<close> returns with histograms asked for and no
  range given, the speed array has at least one element, the bucket edges stored in
  \<^verbatim>\<open>self.histograms\<close> are the \<open>nbins + 1\<close> equally spaced points from 0 to the
  largest speed of the whole array (from \<open>-1/2\<close> to \<open>1/2\<close> when that speed is 0), and
  the stored table has one row of \<open>nbins\<close> densities per frame: row \<open>i\<close> and the
  stored edges are exactly what \<^verbatim>\<open>numpy.histogram\<close> returns for frame \<open>i\<close> with the
  range from 0 to the largest speed of the whole array. So every frame is binned over
  the same edges, whatever its own largest speed. In the witness the first frame has the
  speeds 10 and 1 and the second 4 and 2: the edges are 0, 5, 10 for both, and the second
  row has both speeds in the first bucket.
\<close>

theorem histogram_edges_shared:
  assumes "snd (doFlowsToSpeed a sc avg True nbins None) = Inr out"
  shows "\<exists>hists bins.
           histograms (fst (doFlowsToSpeed a sc avg True nbins None)) = Some (hists, bins)
           \<and> data out \<noteq> []
           \<and> shape hists = [length (frames out), nat nbins]
           \<and> length (data hists) = length (frames out) * nat nbins
           \<and> bins = map (\<lambda>j. (if Max (set (data out)) = 0 then - 1 / 2 else 0)
                              + (if Max (set (data out)) = 0 then 1 else Max (set (data out)))
                                * real j / real (nat nbins))
                         [0..<nat nbins + 1]
           \<and> (\<forall>i<length (frames out).
                 np_histogram (frames out ! i) nbins (0, Max (set (data out)))
                   = Inr (take (nat nbins) (drop (i * nat nbins) (data hists)), bins))"
proof -
  let ?rng = "(0, Max (set (data out)))"
  from doFlowsToSpeed_hist_default [OF assms] obtain fl :: flow_field and hs where
    ne: "data out \<noteq> []" "hs \<noteq> []"
    and sh: "shape out = [flow_t fl, flow_x fl, flow_y fl]"
    and loop: "hist_loop (frames out) nbins ?rng = Inr hs"
    and h: "histograms (fst (doFlowsToSpeed a sc avg True nbins None))
               = Some (\<lparr>shape = [flow_t fl, nat nbins], dtype = Float32, data = concat (map fst hs)\<rparr>,
                       snd (last hs))"
    by blast
  let ?hists = "\<lparr>shape = [flow_t fl, nat nbins], dtype = Float32, data = concat (map fst hs)\<rparr>"
  let ?bins = "snd (last hs)"
  have nfr: "length (frames out) = flow_t fl" using sh by (simp add: frames_def)
  from hist_loop_nth [OF loop] have len: "length hs = length (frames out)"
    and nth: "\<forall>i<length (frames out). np_histogram (frames out ! i) nbins ?rng = Inr (hs ! i)"
    by simp_all
  have each: "np_histogram (frames out ! i) nbins ?rng = Inr (fst (hs ! i), ?bins) \<and> length (fst (hs ! i)) = nat nbins"
    if i: "i < length (frames out)" for i
  proof -
    from hist_loop_same_edges [OF loop ne(2) i] obtain h' where
      h': "np_histogram (frames out ! i) nbins ?rng = Inr (h', ?bins)" by blast
    with nth i have "hs ! i = (h', ?bins)" by simp
    with h' np_histogram_result(2) [OF h'] show ?thesis by simp
  qed
  have chunk: "\<forall>x\<in>set hs. length (fst x) = nat nbins"
  proof
    fix x assume "x \<in> set hs"
    then obtain i where "i < length hs" "x = hs ! i" by (auto simp: in_set_conv_nth)
    with each [of i] len show "length (fst x) = nat nbins" by simp
  qed
  have rows: "take (nat nbins) (drop (i * nat nbins) (data ?hists)) = fst (hs ! i)"
    if "i < length (frames out)" for i
    using concat_take_drop_uniform [OF chunk, of i] that len by simp
  have total: "length (data ?hists) = length (frames out) * nat nbins"
    using concat_map_length_uniform [OF chunk] len by simp
  have last: "length (frames out) - 1 < length (frames out)"
    using ne(2) len by (cases hs) auto
  from each [OF last] have "np_histogram (frames out ! (length (frames out) - 1)) nbins ?rng
                              = Inr (fst (hs ! (length (frames out) - 1)), ?bins)" by simp
  from np_histogram_result(3) [OF this]
  have bins: "?bins = map (\<lambda>j. (if Max (set (data out)) = 0 then - 1 / 2 else 0)
                              + (if Max (set (data out)) = 0 then 1 else Max (set (data out)))
                                * real j / real (nat nbins))
                         [0..<nat nbins + 1]"
    by (auto simp: algebra_simps)
  have all: "\<forall>i<length (frames out).
                 np_histogram (frames out ! i) nbins ?rng
                   = Inr (take (nat nbins) (drop (i * nat nbins) (data ?hists)), ?bins)"
    using each rows by simp
  show ?thesis
    using h ne(1) nfr total bins all
    by (intro exI [of _ ?hists] exI [of _ ?bins]) simp
qed

theorem histogram_edges_shared_witness:
  "snd (doFlowsToSpeed (demo_analyzer (demo_channel ''1.4.23 20180220'' 1000 [px_page 10 0, px_page 20 1000]) 1
                          (Some \<lparr>flow_t = 2, flow_x = 1, flow_y = 2, uv = [(6, 8), (0, 1), (0, 4), (0, 2)]\<rparr>))
          None False True 2 None)
     = Inr \<lparr>shape = [2, 1, 2], dtype = Float32, data = [10, 1, 4, 2]\<rparr>
   \<and> (\<exists>hists bins.
         histograms (fst (doFlowsToSpeed (demo_analyzer (demo_channel ''1.4.23 20180220'' 1000 [px_page 10 0, px_page 20 1000]) 1
                          (Some \<lparr>flow_t = 2, flow_x = 1, flow_y = 2, uv = [(6, 8), (0, 1), (0, 4), (0, 2)]\<rparr>))
          None False True 2 None)) = Some (hists, bins)
         \<and> bins = [0, 5, 10]
         \<and> shape hists = [2, 2]
         \<and> data hists = [Finite (1 / 10), Finite (1 / 10), Finite (1 / 5), Finite 0])"
proof -
  let ?a = "demo_analyzer (demo_channel ''1.4.23 20180220'' 1000 [px_page 10 0, px_page 20 1000]) 1
                          (Some \<lparr>flow_t = 2, flow_x = 1, flow_y = 2, uv = [(6, 8), (0, 1), (0, 4), (0, 2)]\<rparr>)"
  let ?out = "\<lparr>shape = [2, 1, 2], dtype = Float32, data = [10, 1, 4, 2::real]\<rparr>"
  note r = demo_doFlowsToSpeed
  have m: "Max (set (data ?out)) = 10" by simp
  have fl: "length (frames ?out) = 2" "frames ?out ! 0 = [10, 1]" "frames ?out ! 1 = [4, 2]"
    unfolding demo_frames by simp_all
  from histogram_edges_shared [OF r] obtain hists bins where
    h: "histograms (fst (doFlowsToSpeed ?a None False True 2 None)) = Some (hists, bins)"
    and s: "shape hists = [length (frames ?out), nat 2]"
    and l: "length (data hists) = length (frames ?out) * nat 2"
    and all: "\<forall>i<length (frames ?out).
                 np_histogram (frames ?out ! i) 2 (0, Max (set (data ?out)))
                   = Inr (take (nat 2) (drop (i * nat 2) (data hists)), bins)"
    by blast
  from all fl(1) have "np_histogram (frames ?out ! 0) 2 (0, Max (set (data ?out)))
                   = Inr (take (nat 2) (drop (0 * nat 2) (data hists)), bins)"
    and "np_histogram (frames ?out ! 1) 2 (0, Max (set (data ?out)))
                   = Inr (take (nat 2) (drop (1 * nat 2) (data hists)), bins)"
    by simp_all
  then have r0: "take 2 (data hists) = [Finite (1 / 10), Finite (1 / 10)]" and b: "bins = [0, 5, 10]"
    and r1: "take 2 (drop 2 (data hists)) = [Finite (1 / 5), Finite 0]"
    unfolding fl m demo_histogram_1 demo_histogram_2 by simp_all
  from l fl(1) have len: "length (data hists) = 4" by simp
  have "take 2 (data hists) @ take 2 (drop 2 (data hists)) = take (2 + 2) (data hists)"
    by (simp only: take_add)
  also have "\<dots> = data hists" using len by simp
  finally have "data hists = take 2 (data hists) @ take 2 (drop 2 (data hists))" by simp
  with r0 r1 have d: "data hists = [Finite (1 / 10), Finite (1 / 10), Finite (1 / 5), Finite 0]" by simp
  from r h b s fl(1) d show ?thesis by simp
qed

section \<open>The mean speeds written by \<^verbatim>\<open>saveSpeedCSV\<close>\<close>

lemma shape3:
  assumes "length (xs :: nat list) = 3"
  obtains t h w where "xs = [t, h, w]"
  using assms by (auto simp: length_Suc_conv numeral_3_eq_3)

lemma np_mean_axes_3d_6d:
  assumes "shape sp = [t, h, w]"
  shows "map_sum id data (np_mean_axes 3 (sp\<lparr>shape := [t, 1, 1, h, w, 1]\<rparr>))
           = map_sum id data (np_mean_axes 1 sp)"
    and "\<exists>m. np_mean_axes 1 sp = Inr m \<and> shape m = [t] \<and> length (data m) = t"
    and "\<exists>m. np_mean_axes 3 (sp\<lparr>shape := [t, 1, 1, h, w, 1]\<rparr>) = Inr m \<and> shape m = [t, 1, 1, 1] \<and> length (data m) = t"
  using assms by (simp_all add: np_mean_axes_def Let_def length_concat o_def sum_list_triv)

lemma np_average_axes_3d_6d:
  assumes "shape sp = [t, h, w]"
  shows "map_sum id data (np_average_axes 3 (sp\<lparr>shape := [t, 1, 1, h, w, 1]\<rparr>))
           = map_sum id data (np_average_axes 1 sp)"
    and "t = 0 \<Longrightarrow> np_average_axes 1 sp = Inl ZeroDivisionError"
    and "t = 0 \<Longrightarrow> np_average_axes 3 (sp\<lparr>shape := [t, 1, 1, h, w, 1]\<rparr>) = Inl ZeroDivisionError"
    and "0 < t \<Longrightarrow> \<exists>m. np_average_axes 1 sp = Inr m \<and> shape m = [t] \<and> length (data m) = t"
    and "0 < t \<Longrightarrow> \<exists>m. np_average_axes 3 (sp\<lparr>shape := [t, 1, 1, h, w, 1]\<rparr>) = Inr m
                        \<and> shape m = [t, 1, 1, 1] \<and> length (data m) = t"
proof -
  from np_mean_axes_3d_6d [OF assms] obtain m3 m6 where
    m3: "np_mean_axes 1 sp = Inr m3" "shape m3 = [t]" "length (data m3) = t"
    and m6: "np_mean_axes 3 (sp\<lparr>shape := [t, 1, 1, h, w, 1]\<rparr>) = Inr m6" "shape m6 = [t, 1, 1, 1]"
      "length (data m6) = t"
    and eq: "map_sum id data (np_mean_axes 3 (sp\<lparr>shape := [t, 1, 1, h, w, 1]\<rparr>))
           = map_sum id data (np_mean_axes 1 sp)"
    by blast
  from eq m3 m6 have d: "data m6 = data m3" by simp
  show "map_sum id data (np_average_axes 3 (sp\<lparr>shape := [t, 1, 1, h, w, 1]\<rparr>))
           = map_sum id data (np_average_axes 1 sp)"
    using m3 m6 d by (simp add: np_average_axes_def size_of_def)
  show "np_average_axes 1 sp = Inl ZeroDivisionError" if "t = 0"
    using that m3 by (simp add: np_average_axes_def size_of_def)
  show "np_average_axes 3 (sp\<lparr>shape := [t, 1, 1, h, w, 1]\<rparr>) = Inl ZeroDivisionError" if "t = 0"
    using that m6 by (simp add: np_average_axes_def size_of_def)
  show "\<exists>m. np_average_axes 1 sp = Inr m \<and> shape m = [t] \<and> length (data m) = t" if "0 < t"
    using that m3 by (simp add: np_average_axes_def size_of_def)
  show "\<exists>m. np_average_axes 3 (sp\<lparr>shape := [t, 1, 1, h, w, 1]\<rparr>) = Inr m
             \<and> shape m = [t, 1, 1, 1] \<and> length (data m) = t" if "0 < t"
    using that m6 by (simp add: np_average_axes_def size_of_def)
qed

lemma saveSpeedArray_3d:
  assumes "speeds a = Some sp" and "shape sp = [t, h, w]" and "wf_ndarray sp"
  shows "saveSpeedArray a =
           (a\<lparr>speeds := Some (sp\<lparr>shape := [t, 1, 1, h, w, 1]\<rparr>)\<rparr>,
            if pxSize_um (channel a) = 0 then Inl ZeroDivisionError
            else Inr (sp\<lparr>shape := [t, 1, 1, h, w, 1], dtype := Float32\<rparr>))"
  using assms by (simp add: saveSpeedArray_def wf_ndarray_def size_of_def Let_def)

lemma saveSpeedCSV_3d_6d:
  assumes "speeds a = Some sp" and "shape sp = [t, h, w]"
  shows "saveSpeedCSV (a\<lparr>speeds := Some (sp\<lparr>shape := [t, 1, 1, h, w, 1]\<rparr>)\<rparr>) = saveSpeedCSV a"
proof (cases "t = 0")
  case True
  with np_average_axes_3d_6d(2,3) [OF assms(2)] assms show ?thesis
    by (simp add: saveSpeedCSV_def)
next
  case False
  then have t: "0 < t" by simp
  from np_average_axes_3d_6d(4) [OF assms(2) t] obtain m3 where
    m3: "np_average_axes 1 sp = Inr m3" "shape m3 = [t]" "length (data m3) = t"
    by blast
  from np_average_axes_3d_6d(5) [OF assms(2) t] obtain m6 where
    m6: "np_average_axes 3 (sp\<lparr>shape := [t, 1, 1, h, w, 1]\<rparr>) = Inr m6" "shape m6 = [t, 1, 1, 1]"
      "length (data m6) = t"
    by blast
  from np_average_axes_3d_6d(1) [OF assms(2)] m3 m6 have d: "data m6 = data m3" by simp
  show ?thesis
    using assms m3 m6 d by (simp add: saveSpeedCSV_def size_of_def Let_def split: option.splits)
qed

text \<open>
  Claim C10: for a speed array in its native shape \<open>(t, h, w)\<close>, \<^verbatim>\<open>saveSpeedArray\<close>
  leaves \<^verbatim>\<open>self.speeds\<close> with the same elements in the shape
  \<open>(t, 1, 1, h, w, 1)\<close>, whether it goes on to write the array or stops on the pixel
  size zero; \<^verbatim>\<open>numpy.average\<close> over the axes 3 and 4 of that array gives what it
  gives over the axes 1 and 2 of the native one (the same means, or the same failure
  when there is no frame), and \<^verbatim>\<open>saveSpeedCSV\<close> writes the same rows, or fails in
  the same way, before and after \<^verbatim>\<open>saveSpeedArray\<close>.
\<close>

theorem saveSpeedCSV_same_after_reshape:
  assumes "speeds a = Some sp" and "length (shape sp) = 3" and "wf_ndarray sp"
  shows "\<exists>a' sp'. fst (saveSpeedArray a) = a'
           \<and> snd (saveSpeedArray a) = (if pxSize_um (channel a) = 0 then Inl ZeroDivisionError
                                         else Inr (sp'\<lparr>dtype := Float32\<rparr>))
           \<and> speeds a' = Some sp'
           \<and> channel a' = channel a
           \<and> shape sp' = [shape sp ! 0, 1, 1, shape sp ! 1, shape sp ! 2, 1]
           \<and> data sp' = data sp
           \<and> np_average_axes 3 sp' = map_sum id (\<lambda>m. m\<lparr>shape := [shape sp ! 0, 1, 1, 1]\<rparr>) (np_average_axes 1 sp)
           \<and> saveSpeedCSV a' = saveSpeedCSV a"
proof -
  from assms(2) obtain t h w where sh: "shape sp = [t, h, w]" by (rule shape3)
  let ?sp' = "sp\<lparr>shape := [t, 1, 1, h, w, 1]\<rparr>"
  let ?a' = "a\<lparr>speeds := Some ?sp'\<rparr>"
  have 1: "saveSpeedArray a = (?a', if pxSize_um (channel a) = 0 then Inl ZeroDivisionError
                                    else Inr (?sp'\<lparr>dtype := Float32\<rparr>))"
    by (rule saveSpeedArray_3d [OF assms(1) sh assms(3)])
  have 2: "np_average_axes 3 ?sp' = map_sum id (\<lambda>m. m\<lparr>shape := [t, 1, 1, 1]\<rparr>) (np_average_axes 1 sp)"
    using sh
    by (simp add: np_average_axes_def np_mean_axes_def size_of_def Let_def length_concat o_def sum_list_triv)
  have 3: "saveSpeedCSV ?a' = saveSpeedCSV a"
    by (rule saveSpeedCSV_3d_6d [OF assms(1) sh])
  show ?thesis
    using 1 2 3 sh by simp
qed

theorem saveSpeedCSV_same_after_reshape_witness:
  "\<exists>a' sp'.
      fst (saveSpeedArray (demo_analyzer
             ((demo_channel ''1.4.23 20180220'' 1000 [px_page 10 0, px_page 20 1000, px_page 30 2000, px_page 40 3000])
                \<lparr>frameSamplingInterval := Some 3\<rparr>) 1 None
             \<lparr>speeds := Some \<lparr>shape = [2, 1, 2], dtype = Float32, data = [5, 2, 10, 1]\<rparr>\<rparr>)) = a'
      \<and> snd (saveSpeedArray (demo_analyzer
             ((demo_channel ''1.4.23 20180220'' 1000 [px_page 10 0, px_page 20 1000, px_page 30 2000, px_page 40 3000])
                \<lparr>frameSamplingInterval := Some 3\<rparr>) 1 None
             \<lparr>speeds := Some \<lparr>shape = [2, 1, 2], dtype = Float32, data = [5, 2, 10, 1]\<rparr>\<rparr>))
           = Inr \<lparr>shape = [2, 1, 1, 1, 2, 1], dtype = Float32, data = [5, 2, 10, 1]\<rparr>
      \<and> speeds a' = Some sp'
      \<and> shape sp' = [2, 1, 1, 1, 2, 1]
      \<and> saveSpeedCSV a' = Inr [(2, Finite (7 / 2)), (3, Finite (11 / 2))]
      \<and> saveSpeedCSV (demo_analyzer
             ((demo_channel ''1.4.23 20180220'' 1000 [px_page 10 0, px_page 20 1000, px_page 30 2000, px_page 40 3000])
                \<lparr>frameSamplingInterval := Some 3\<rparr>) 1 None
             \<lparr>speeds := Some \<lparr>shape = [2, 1, 2], dtype = Float32, data = [5, 2, 10, 1]\<rparr>\<rparr>)
          = Inr [(2, Finite (7 / 2)), (3, Finite (11 / 2))]"
proof -
  let ?sp = "\<lparr>shape = [2, 1, 2], dtype = Float32, data = [5, 2, 10, 1::real]\<rparr>"
  let ?a = "demo_analyzer
             ((demo_channel ''1.4.23 20180220'' 1000 [px_page 10 0, px_page 20 1000, px_page 30 2000, px_page 40 3000])
                \<lparr>frameSamplingInterval := Some 3\<rparr>) 1 None \<lparr>speeds := Some ?sp\<rparr>"
  have 1: "speeds ?a = Some ?sp" by simp
  have 2: "length (shape ?sp) = 3" by simp
  have 3: "wf_ndarray ?sp" by (simp add: wf_ndarray_def)
  have csv: "saveSpeedCSV ?a = Inr [(2, Finite (7 / 2)), (3, Finite (11 / 2))]"
    by code_simp
  have px: "pxSize_um (channel ?a) = 1"
    by (simp add: demo_analyzer_def demo_channel_def)
  from saveSpeedCSV_same_after_reshape [OF 1 2 3] obtain a' sp' where
    "fst (saveSpeedArray ?a) = a'"
    "snd (saveSpeedArray ?a) = (if pxSize_um (channel ?a) = 0 then Inl ZeroDivisionError
                                 else Inr (sp'\<lparr>dtype := Float32\<rparr>))"
    "speeds a' = Some sp'"
    "shape sp' = [shape ?sp ! 0, 1, 1, shape ?sp ! 1, shape ?sp ! 2, 1]"
    "data sp' = data ?sp"
    "saveSpeedCSV a' = saveSpeedCSV ?a"
    by blast
  with csv px show ?thesis by (intro exI [of _ a'] exI [of _ sp']) simp
qed

section \<open>The temporal median filter\<close>

lemma getTemporalMedianFilterArray_computes:
  assumes "medianArray ch = None \<or> recalculate"
  shows "getTemporalMedianFilterArray ch s e W recalculate = compute_median ch s e W"
  using assms by (auto simp: getTemporalMedianFilterArray_def split: option.splits sum.splits)

lemma getTemporalMedianFilterArray_cached:
  assumes "medianArray ch = Some m" and "\<not> recalculate"
  shows "getTemporalMedianFilterArray ch s e W recalculate = (ch, Inr m)"
  using assms by (auto simp: getTemporalMedianFilterArray_def truth_value_def split: sum.splits if_splits)

lemma decode_pages_frameSamplingInterval:
  "decode_pages (ch\<lparr>frameSamplingInterval := x\<rparr>) = decode_pages ch"
  by (simp add: decode_pages_def Let_def cong: list.case_cong sum.case_cong)

lemma getArray_frameSamplingInterval:
  "getArray (ch\<lparr>frameSamplingInterval := x\<rparr>) = (ch\<lparr>frameSamplingInterval := x\<rparr>, snd (getArray ch))"
  by (simp add: getArray_def decode_pages_frameSamplingInterval split: option.splits sum.splits bool.splits)

lemma broadcast_page_length:
  assumes "broadcast_page p R C = Inr px"
  shows "length px = R * C"
  using assms
  by (auto simp: broadcast_page_def Let_def length_concat o_def sum_list_triv split: if_splits)

lemma fill_pages_length:
  assumes "fill_pages ps R C = Inr px"
  shows "length px = length ps * (R * C)"
  using assms
proof (induction ps arbitrary: px)
  case Nil
  then show ?case by simp
next
  case (Cons p ps)
  from Cons.prems obtain a rest where a: "broadcast_page p R C = Inr a"
    and rest: "fill_pages ps R C = Inr rest" and px: "px = a @ rest"
    by (auto split: sum.splits)
  from broadcast_page_length [OF a] Cons.IH [OF rest] px show ?case by simp
qed

lemma getArray_decoded:
  assumes "array ch = None" and "snd (getArray ch) = Inr arr"
  shows "shape arr = [length (pages ch), Width (Summary (tif_mm_metadata ch)), Height (Summary (tif_mm_metadata ch))]
         \<and> wf_ndarray arr"
proof -
  let ?W = "Width (Summary (tif_mm_metadata ch))" and ?H = "Height (Summary (tif_mm_metadata ch))"
  from assms have d: "decode_pages ch = Inr arr" by (simp add: getArray_def)
  then obtain px where px: "fill_pages (pages ch) ?W ?H = Inr px"
    and sh: "shape arr = [length (pages ch), ?W, ?H]" and da: "data arr = px"
    by (auto simp: decode_pages_def Let_def split: list.splits sum.splits)
  from fill_pages_length [OF px] sh da show ?thesis by (simp add: wf_ndarray_def)
qed

lemma frames_length:
  assumes "shape a = n # rest"
  shows "length (frames a) = n"
  using assms by (simp add: frames_def)

lemma frames_nth:
  assumes "shape a = [n, h, w]" and "wf_ndarray a" and "t < n" and "p < h * w"
  shows "frames a ! t ! p = data a ! (t * (h * w) + p)"
proof -
  have "frames a ! t = take (h * w) (drop (t * (h * w)) (data a))"
    using assms(1,3) by (simp add: frames_def)
  moreover have "t * (h * w) + p < length (data a)"
  proof -
    have "t * (h * w) + p < t * (h * w) + h * w" using assms(4) by simp
    also have "\<dots> = Suc t * (h * w)" by simp
    also have "\<dots> \<le> n * (h * w)" using assms(3) by (intro mult_le_mono1) simp
    finally show ?thesis using assms(1,2) by (simp add: wf_ndarray_def)
  qed
  ultimately show ?thesis using assms(4) by simp
qed

lemma py_slice_inside:
  assumes "0 \<le> a" and "a \<le> b" and "nat b \<le> length xs"
  shows "py_slice a b xs = take (nat b - nat a) (drop (nat a) xs)"
  using assms by (simp add: py_slice_def slice_bound_def Let_def min_def)

lemma take_drop_map_nth:
  assumes "i + m \<le> length xs"
  shows "take m (drop i xs) = map (\<lambda>j. xs ! (i + j)) [0..<m]"
  using assms by (intro nth_equalityI) simp_all

lemma compute_median_InvalidRange:
  assumes "stop = (case stopFrame of None \<Rightarrow> int (length (pages ch)) | Some s \<Rightarrow> min s (int (length (pages ch))))"
    and "startFrame \<ge> stop"
  shows "compute_median ch startFrame stopFrame W
           = (ch, Inl (ValueError ''StartFrame cannot be larger than Stopframe!''))"
  using assms by (auto simp: compute_median_def Let_def min_def split: option.splits)

lemma compute_median_WindowTooLarge:
  assumes "stop = (case stopFrame of None \<Rightarrow> int (length (pages ch)) | Some s \<Rightarrow> min s (int (length (pages ch))))"
    and "startFrame < stop" and "stop - startFrame < W"
  shows "compute_median ch startFrame stopFrame W
           = (ch, Inl (ValueError ''Not enough frames selected to do median projection! ''))"
  using assms by (auto simp: compute_median_def Let_def min_def split: option.splits)

lemma compute_median_proceeds:
  assumes "stop = (case stopFrame of None \<Rightarrow> int (length (pages ch)) | Some s \<Rightarrow> min s (int (length (pages ch))))"
    and "startFrame < stop" and "W \<le> stop - startFrame"
  shows "compute_median ch startFrame stopFrame W =
           (case snd (getArray ch) of
              Inl e \<Rightarrow> (ch\<lparr>frameSamplingInterval := Some W\<rparr>, Inl e)
            | Inr arr \<Rightarrow>
                if length (shape arr) < 3 then (ch\<lparr>frameSamplingInterval := Some W\<rparr>, Inl IndexError)
                else if length (shape arr) > 3 then
                  (ch\<lparr>frameSamplingInterval := Some W\<rparr>,
                   Inl (ValueError ''output array does not match result of numpy.median''))
                else
                  (ch\<lparr>frameSamplingInterval := Some W,
                      medianArray := Some \<lparr>shape = [nat (stop - startFrame - (W - 1)), shape arr ! 1, shape arr ! 2],
                         dtype = Float32,
                         data = concat (map (\<lambda>inframe.
                                    median_axis0 (py_slice inframe (inframe + W) (frames arr))
                                      (shape arr ! 1 * shape arr ! 2))
                                    [startFrame..stop - W])\<rparr>\<rparr>,
                   Inr \<lparr>shape = [nat (stop - startFrame - (W - 1)), shape arr ! 1, shape arr ! 2],
                         dtype = Float32,
                         data = concat (map (\<lambda>inframe.
                                    median_axis0 (py_slice inframe (inframe + W) (frames arr))
                                      (shape arr ! 1 * shape arr ! 2))
                                    [startFrame..stop - W])\<rparr>))"
proof -
  have stop: "stop = (case stopFrame of None \<Rightarrow> int (length (pages ch))
                      | Some s \<Rightarrow> if s > int (length (pages ch)) then int (length (pages ch)) else s)"
    using assms(1) by (auto simp: min_def split: option.splits)
  show ?thesis
    using assms(2,3)
    by (simp add: compute_median_def stop [symmetric] Let_def getArray_frameSamplingInterval
        split: sum.splits)
qed

lemma median_axis0_nth:
  assumes "p < c"
  shows "median_axis0 fs c ! p = np_median (map (\<lambda>f. f ! p) fs)"
  using assms by (simp add: median_axis0_def)

lemma median_window:
  assumes sh: "shape arr = [n, h, w]" and wf: "wf_ndarray arr"
    and a: "0 \<le> a" and W: "0 \<le> W" and le: "nat a + nat W \<le> n" and p: "p < h * w"
  shows "median_axis0 (py_slice a (a + W) (frames arr)) (h * w) ! p
           = np_median (map (\<lambda>j. data arr ! ((nat a + j) * (h * w) + p)) [0..<nat W])"
proof -
  have len: "length (frames arr) = n" using sh by (rule frames_length)
  have "py_slice a (a + W) (frames arr) = take (nat (a + W) - nat a) (drop (nat a) (frames arr))"
    using a W le len by (intro py_slice_inside) (simp_all add: nat_add_distrib)
  also have "nat (a + W) - nat a = nat W" using a W by (simp add: nat_add_distrib)
  also have "take (nat W) (drop (nat a) (frames arr)) = map (\<lambda>j. frames arr ! (nat a + j)) [0..<nat W]"
    using le len by (intro take_drop_map_nth) simp
  finally have sl: "py_slice a (a + W) (frames arr) = map (\<lambda>j. frames arr ! (nat a + j)) [0..<nat W]" .
  have "map (\<lambda>f. f ! p) (py_slice a (a + W) (frames arr))
          = map (\<lambda>j. frames arr ! (nat a + j) ! p) [0..<nat W]"
    unfolding sl by (simp add: o_def)
  also have "\<dots> = map (\<lambda>j. data arr ! ((nat a + j) * (h * w) + p)) [0..<nat W]"
  proof (rule map_cong [OF refl])
    fix j assume "j \<in> set [0..<nat W]"
    then have "nat a + j < n" using le by simp
    then show "frames arr ! (nat a + j) ! p = data arr ! ((nat a + j) * (h * w) + p)"
      using sh wf p by (intro frames_nth)
  qed
  finally show ?thesis using p by (simp add: median_axis0_nth)
qed

text \<open>
  Claim C2 says that, for all frame ranges and window sizes that the validation accepts,
  the filter returns \<open>(stopFrame - startFrame) - (windowSize - 1)\<close> frames, the \<open>k\<close>-th
  of which is the median, pixel by pixel, of the \<open>windowSize\<close> input frames from
  \<open>startFrame + k\<close> on. As stated it does not hold: the validation accepts a negative
  \<open>startFrame\<close>, and the slices \<^verbatim>\<open>arr[inframe:inframe + frameSamplingInterval]\<close>
  that begin at a negative index and end at a nonnegative one are empty. Here with three
  one-pixel frames 10, 20, 30, \<open>startFrame = -1\<close> and window 2: the first of the three
  output frames is NaN, the median of no frame at all.
\<close>

theorem median_negative_start_counterexample:
  "snd (getTemporalMedianFilterArray
          (demo_channel ''1.4.23 20180220'' 1000 [px_page 10 0, px_page 20 1000, px_page 30 2000])
          (- 1) None 2 False)
     = Inr \<lparr>shape = [3, 1, 1], dtype = Float32, data = [NaN, Finite 15, Finite 25]\<rparr>"
  by code_simp

text \<open>
  Claim C2 as amended: on a channel whose frame stack \<open>arr\<close> decodes, with no stored
  median array or with \<^verbatim>\<open>recalculate\<close>, for every \<open>startFrame \<ge> 0\<close> and window
  \<open>W \<ge> 1\<close> with \<open>startFrame < stop\<close> and \<open>W \<le> stop - startFrame\<close>, where \<open>stop\<close> is
  \<open>stopFrame\<close> cut to the number of frames, the filter returns (and stores) an array of
  element type float32 and shape \<open>((stop - startFrame) - (W - 1), h, w)\<close> whose frame
  \<open>k\<close> has at every pixel \<open>p\<close> the median of the values of the \<open>W\<close> input frames
  \<open>startFrame + k, \<dots>, startFrame + k + W - 1\<close> at \<open>p\<close>: the window moves by one
  frame per output frame.
\<close>

theorem median_gliding_window:
  assumes cache: "medianArray ch = None \<or> recalculate"
    and fresh: "array ch = None"
    and arr: "snd (getArray ch) = Inr arr"
    and stop: "stop = (case stopFrame of None \<Rightarrow> int (length (pages ch))
                       | Some s \<Rightarrow> min s (int (length (pages ch))))"
    and start0: "0 \<le> startFrame" and W1: "1 \<le> W"
    and range: "startFrame < stop" and window: "W \<le> stop - startFrame"
  shows "\<exists>out. snd (getTemporalMedianFilterArray ch startFrame stopFrame W recalculate) = Inr out
           \<and> medianArray (fst (getTemporalMedianFilterArray ch startFrame stopFrame W recalculate)) = Some out
           \<and> dtype out = Float32
           \<and> shape out = [nat ((stop - startFrame) - (W - 1)), shape arr ! 1, shape arr ! 2]
           \<and> length (data out) = nat ((stop - startFrame) - (W - 1)) * (shape arr ! 1 * shape arr ! 2)
           \<and> (\<forall>k<nat ((stop - startFrame) - (W - 1)). \<forall>p<shape arr ! 1 * shape arr ! 2.
                 data out ! (k * (shape arr ! 1 * shape arr ! 2) + p)
                   = np_median (map (\<lambda>j. data arr ! ((nat startFrame + k + j) * (shape arr ! 1 * shape arr ! 2) + p))
                                    [0..<nat W]))"
proof -
  let ?n = "length (pages ch)"
  let ?h = "shape arr ! 1" and ?w = "shape arr ! 2"
  let ?c = "?h * ?w"
  let ?f = "\<lambda>inframe. median_axis0 (py_slice inframe (inframe + W) (frames arr)) ?c"
  let ?xs = "[startFrame..stop - W]"
  let ?nout = "nat ((stop - startFrame) - (W - 1))"
  let ?out = "\<lparr>shape = [?nout, ?h, ?w], dtype = Float32, data = concat (map ?f ?xs)\<rparr>"
  from getArray_decoded [OF fresh arr] obtain H V where sh: "shape arr = [?n, H, V]" and wf: "wf_ndarray arr"
    by blast
  then have sh': "shape arr = [?n, ?h, ?w]" by simp
  have stop_le: "stop \<le> int ?n" using stop by (auto split: option.splits)
  have run: "getTemporalMedianFilterArray ch startFrame stopFrame W recalculate
               = (ch\<lparr>frameSamplingInterval := Some W, medianArray := Some ?out\<rparr>, Inr ?out)"
    using sh arr
    by (simp add: getTemporalMedianFilterArray_computes [OF cache]
          compute_median_proceeds [OF stop range window])
  have lenxs: "length ?xs = ?nout" using window W1 by simp
  have chunk: "\<forall>x\<in>set ?xs. length (?f x) = ?c" by (simp add: median_axis0_def)
  have len: "length (data ?out) = ?nout * ?c"
    using concat_map_length_uniform [OF chunk] lenxs by simp
  have nth: "data ?out ! (k * ?c + p)
               = np_median (map (\<lambda>j. data arr ! ((nat startFrame + k + j) * ?c + p)) [0..<nat W])"
    if k: "k < ?nout" and p: "p < ?c" for k p
  proof -
    have kx: "k < length ?xs" using k lenxs by simp
    have xk: "?xs ! k = startFrame + int k" using kx by simp
    have "data ?out ! (k * ?c + p) = ?f (?xs ! k) ! p"
      using concat_map_nth_uniform [OF chunk kx p] by simp
    also have "\<dots> = ?f (startFrame + int k) ! p" by (simp only: xk)
    also have "\<dots> = np_median (map (\<lambda>j. data arr ! ((nat (startFrame + int k) + j) * ?c + p)) [0..<nat W])"
    proof (rule median_window [OF sh' wf _ _ _ p])
      show "0 \<le> startFrame + int k" using start0 by simp
      show "0 \<le> W" using W1 by simp
      have "startFrame + int k + W \<le> stop" using k W1 window by linarith
      then show "nat (startFrame + int k) + nat W \<le> ?n" using stop_le start0 W1 by linarith
    qed
    also have "nat (startFrame + int k) = nat startFrame + k" using start0 by (simp add: nat_add_distrib)
    finally show ?thesis .
  qed
  show ?thesis
    unfolding run using len nth by (intro exI [of _ ?out]) simp
qed

theorem median_gliding_window_witness:
  "\<exists>out. snd (getTemporalMedianFilterArray
                (demo_channel ''1.4.23 20180220'' 1000
                   [px_page 10 0, px_page 50 1000, px_page 20 2000, px_page 40 3000])
                1 None 2 False) = Inr out
         \<and> dtype out = Float32 \<and> shape out = [2, 1, 1]
         \<and> data out ! 0 = Finite 35 \<and> data out ! 1 = Finite 30"
proof -
  let ?ch = "demo_channel ''1.4.23 20180220'' 1000
                   [px_page 10 0, px_page 50 1000, px_page 20 2000, px_page 40 3000]"
  let ?arr = "\<lparr>shape = [4, 1, 1], dtype = UInt16, data = [10, 50, 20, 40::real]\<rparr>"
  have cache: "medianArray ?ch = None \<or> False" by (simp add: demo_channel_def)
  have fresh: "array ?ch = None" by (simp add: demo_channel_def)
  have arr: "snd (getArray ?ch) = Inr ?arr" by code_simp
  have stop: "(4::int) = (case None of None \<Rightarrow> int (length (pages ?ch))
                          | Some s \<Rightarrow> min s (int (length (pages ?ch))))"
    by (simp add: demo_channel_def)
  from median_gliding_window [OF cache fresh arr stop, of 1 2]
  obtain out where r: "snd (getTemporalMedianFilterArray ?ch 1 None 2 False) = Inr out"
    and d: "dtype out = Float32"
    and s: "shape out = [nat ((4 - 1) - (2 - 1)), shape ?arr ! 1, shape ?arr ! 2]"
    and n: "\<forall>k<nat ((4 - 1) - (2 - 1)). \<forall>p<shape ?arr ! 1 * shape ?arr ! 2.
                 data out ! (k * (shape ?arr ! 1 * shape ?arr ! 2) + p)
                   = np_median (map (\<lambda>j. data ?arr ! ((nat 1 + k + j) * (shape ?arr ! 1 * shape ?arr ! 2) + p))
                                    [0..<nat 2])"
    by auto
  have m0: "np_median [50, 20] = Finite 35" and m1: "np_median [20, 40] = Finite 30"
    by code_simp+
  from n [rule_format, of 0 0] have "data out ! 0 = Finite 35"
    by (simp add: upt_rec m0)
  moreover from n [rule_format, of 1 0] have "data out ! 1 = Finite 30"
    by (simp add: upt_rec m1)
  ultimately show ?thesis using r d s by simp
qed

text \<open>
  Claim C5 says that for every frame stack the filter fails when
  \<open>startFrame \<ge> stopFrame\<close> and when the range is shorter than the window. As stated it
  does not hold: the test for a stored median array comes before the validation, so a
  second call without \<^verbatim>\<open>recalculate\<close> returns the stored array whatever its
  arguments. Here the second call has \<open>startFrame = 5\<close>, \<open>stopFrame = 2\<close> and window 3.
\<close>

theorem median_cached_counterexample:
  "snd (getTemporalMedianFilterArray
          (fst (getTemporalMedianFilterArray
                  (demo_channel ''1.4.23 20180220'' 1000 [px_page 10 0, px_page 20 1000, px_page 30 2000])
                  0 None 2 False))
          5 (Some 2) 3 False)
     = Inr \<lparr>shape = [2, 1, 1], dtype = Float32, data = [Finite 15, Finite 25]\<rparr>"
  by code_simp

text \<open>
  Claim C5 as amended, with \<open>stop\<close> for \<open>stopFrame\<close> cut to the number of frames (the
  number of frames when \<open>stopFrame\<close> is \<^verbatim>\<open>None\<close>). On a channel with a stored median
  array and without \<^verbatim>\<open>recalculate\<close> the call returns the stored array and leaves
  the channel as it was, whatever the other arguments. On a channel with no stored median
  array, or with \<^verbatim>\<open>recalculate\<close>: the call fails with the first \<open>ValueError\<close> and
  leaves the channel as it was when \<open>startFrame \<ge> stop\<close>; it fails with the second one
  when \<open>startFrame < stop\<close> and \<open>stop - startFrame\<close> is less than the window; otherwise
  it records the window on the channel and computes: a failure of \<^verbatim>\<open>getArray\<close> is
  passed on, and a stack of three axes gives \<open>(stop - startFrame) - (W - 1)\<close> output
  frames, one per integer \<open>i\<close> from \<open>startFrame\<close> to \<open>stop - W\<close>, each the median over
  the slice \<^verbatim>\<open>arr[i:i + W]\<close>, with \<open>startFrame\<close> and \<open>W\<close> as they were passed.
\<close>

theorem median_validation:
  assumes stop: "stop = (case stopFrame of None \<Rightarrow> int (length (pages ch))
                       | Some s \<Rightarrow> min s (int (length (pages ch))))"
  shows "(\<forall>m. medianArray ch = Some m \<and> \<not> recalculate \<longrightarrow>
            getTemporalMedianFilterArray ch startFrame stopFrame W recalculate = (ch, Inr m))
       \<and> (medianArray ch = None \<or> recalculate \<longrightarrow>
            (stop \<le> startFrame \<longrightarrow>
               getTemporalMedianFilterArray ch startFrame stopFrame W recalculate
                 = (ch, Inl (ValueError ''StartFrame cannot be larger than Stopframe!'')))
          \<and> (startFrame < stop \<and> stop - startFrame < W \<longrightarrow>
               getTemporalMedianFilterArray ch startFrame stopFrame W recalculate
                 = (ch, Inl (ValueError ''Not enough frames selected to do median projection! '')))
          \<and> (startFrame < stop \<and> W \<le> stop - startFrame \<longrightarrow>
               frameSamplingInterval (fst (getTemporalMedianFilterArray ch startFrame stopFrame W recalculate)) = Some W
               \<and> (\<forall>e. snd (getArray ch) = Inl e \<longrightarrow>
                     snd (getTemporalMedianFilterArray ch startFrame stopFrame W recalculate) = Inl e)
               \<and> (\<forall>arr. snd (getArray ch) = Inr arr \<and> length (shape arr) = 3 \<longrightarrow>
                     (\<exists>out. snd (getTemporalMedianFilterArray ch startFrame stopFrame W recalculate) = Inr out
                         \<and> medianArray (fst (getTemporalMedianFilterArray ch startFrame stopFrame W recalculate)) = Some out
                         \<and> shape out = [nat (stop - startFrame - (W - 1)), shape arr ! 1, shape arr ! 2]
                         \<and> data out = concat (map (\<lambda>inframe.
                                       median_axis0 (py_slice inframe (inframe + W) (frames arr))
                                         (shape arr ! 1 * shape arr ! 2))
                                       [startFrame..stop - W])))))"
proof (intro conjI impI allI)
  fix m assume "medianArray ch = Some m \<and> \<not> recalculate"
  then show "getTemporalMedianFilterArray ch startFrame stopFrame W recalculate = (ch, Inr m)"
    by (simp add: getTemporalMedianFilterArray_cached)
next
  assume cache: "medianArray ch = None \<or> recalculate" and "stop \<le> startFrame"
  then show "getTemporalMedianFilterArray ch startFrame stopFrame W recalculate
              = (ch, Inl (ValueError ''StartFrame cannot be larger than Stopframe!''))"
    by (simp add: getTemporalMedianFilterArray_computes [OF cache] compute_median_InvalidRange [OF stop])
next
  assume cache: "medianArray ch = None \<or> recalculate" and "startFrame < stop \<and> stop - startFrame < W"
  then show "getTemporalMedianFilterArray ch startFrame stopFrame W recalculate
              = (ch, Inl (ValueError ''Not enough frames selected to do median projection! ''))"
    by (simp add: getTemporalMedianFilterArray_computes [OF cache] compute_median_WindowTooLarge [OF stop])
next
  assume cache: "medianArray ch = None \<or> recalculate" and ok: "startFrame < stop \<and> W \<le> stop - startFrame"
  note run = getTemporalMedianFilterArray_computes [OF cache, of startFrame stopFrame W]
    compute_median_proceeds [OF stop conjunct1 [OF ok] conjunct2 [OF ok]]
  show "frameSamplingInterval (fst (getTemporalMedianFilterArray ch startFrame stopFrame W recalculate)) = Some W"
    unfolding run by (simp split: sum.splits)
  show "snd (getTemporalMedianFilterArray ch startFrame stopFrame W recalculate) = Inl e"
    if "snd (getArray ch) = Inl e" for e
    unfolding run using that by simp
  show "\<exists>out. snd (getTemporalMedianFilterArray ch startFrame stopFrame W recalculate) = Inr out
                      \<and> medianArray (fst (getTemporalMedianFilterArray ch startFrame stopFrame W recalculate)) = Some out
                      \<and> shape out = [nat (stop - startFrame - (W - 1)), shape arr ! 1, shape arr ! 2]
                      \<and> data out = concat (map (\<lambda>inframe.
                                    median_axis0 (py_slice inframe (inframe + W) (frames arr))
                                      (shape arr ! 1 * shape arr ! 2))
                                    [startFrame..stop - W])"
    if "snd (getArray ch) = Inr arr \<and> length (shape arr) = 3" for arr
    unfolding run using that by simp
qed

theorem median_validation_witness:
  "getTemporalMedianFilterArray
      (demo_channel ''1.4.23 20180220'' 1000 [px_page 10 0, px_page 20 1000, px_page 30 2000])
      3 (Some 7) 1 False
     = (demo_channel ''1.4.23 20180220'' 1000 [px_page 10 0, px_page 20 1000, px_page 30 2000],
        Inl (ValueError ''StartFrame cannot be larger than Stopframe!''))
   \<and> getTemporalMedianFilterArray
      (demo_channel ''1.4.23 20180220'' 1000 [px_page 10 0, px_page 20 1000, px_page 30 2000])
      1 (Some 7) 3 False
     = (demo_channel ''1.4.23 20180220'' 1000 [px_page 10 0, px_page 20 1000, px_page 30 2000],
        Inl (ValueError ''Not enough frames selected to do median projection! ''))
   \<and> (\<exists>out. snd (getTemporalMedianFilterArray
                    (demo_channel ''1.4.23 20180220'' 1000 [px_page 10 0, px_page 20 1000, px_page 30 2000])
                    1 (Some 7) 2 False) = Inr out
          \<and> shape out = [1, 1, 1] \<and> data out = [Finite 25])
   \<and> frameSamplingInterval (fst (getTemporalMedianFilterArray
                    (demo_channel ''1.4.23 20180220'' 1000 [px_page 10 0, px_page 20 1000, px_page 30 2000])
                    1 (Some 7) 2 False)) = Some 2
   \<and> snd (getTemporalMedianFilterArray
            ((demo_channel ''1.4.23 20180220'' 1000 [px_page 10 0, px_page 20 1000, px_page 30 2000])
               \<lparr>medianArray := Some \<lparr>shape = [1, 1, 1], dtype = Float32, data = [Finite 25]\<rparr>\<rparr>)
            3 (Some 7) 1 False)
       = Inr \<lparr>shape = [1, 1, 1], dtype = Float32, data = [Finite 25]\<rparr>"
proof -
  let ?ch = "demo_channel ''1.4.23 20180220'' 1000 [px_page 10 0, px_page 20 1000, px_page 30 2000]"
  let ?arr = "\<lparr>shape = [3, 1, 1], dtype = UInt16, data = [10, 20, 30::real]\<rparr>"
  let ?m = "\<lparr>shape = [1, 1, 1], dtype = Float32, data = [Finite 25]\<rparr>"
  let ?chc = "?ch\<lparr>medianArray := Some ?m\<rparr>"
  have cache: "medianArray ?ch = None \<or> False" by (simp add: demo_channel_def)
  have stop: "(3::int) = (case Some 7 of None \<Rightarrow> int (length (pages ?ch))
                          | Some s \<Rightarrow> min s (int (length (pages ?ch))))"
    by (simp add: demo_channel_def)
  have stopc: "(3::int) = (case Some 7 of None \<Rightarrow> int (length (pages ?chc))
                          | Some s \<Rightarrow> min s (int (length (pages ?chc))))"
    by (simp add: demo_channel_def)
  have arr: "snd (getArray ?ch) = Inr ?arr \<and> length (shape ?arr) = 3" by code_simp
  have a: "getTemporalMedianFilterArray ?ch 3 (Some 7) 1 False
             = (?ch, Inl (ValueError ''StartFrame cannot be larger than Stopframe!''))"
    using median_validation [OF stop, of False 3 1] cache by simp
  have b: "getTemporalMedianFilterArray ?ch 1 (Some 7) 3 False
             = (?ch, Inl (ValueError ''Not enough frames selected to do median projection! ''))"
    using median_validation [OF stop, of False 1 3] cache by simp
  have ok: "(1::int) < 3 \<and> (2::int) \<le> 3 - 1" by simp
  note c = median_validation [OF stop, of False 1 2, THEN conjunct2, rule_format, OF cache,
      THEN conjunct2, THEN conjunct2, rule_format, OF ok]
  from c have c1: "frameSamplingInterval (fst (getTemporalMedianFilterArray ?ch 1 (Some 7) 2 False)) = Some 2"
    by blast
  from c have "\<forall>arr. snd (getArray ?ch) = Inr arr \<and> length (shape arr) = 3 \<longrightarrow>
                  (\<exists>out. snd (getTemporalMedianFilterArray ?ch 1 (Some 7) 2 False) = Inr out
                      \<and> medianArray (fst (getTemporalMedianFilterArray ?ch 1 (Some 7) 2 False)) = Some out
                      \<and> shape out = [nat (3 - 1 - (2 - 1)), shape arr ! 1, shape arr ! 2]
                      \<and> data out = concat (map (\<lambda>inframe.
                                    median_axis0 (py_slice inframe (inframe + 2) (frames arr))
                                      (shape arr ! 1 * shape arr ! 2))
                                    [1..3 - 2]))"
    by blast
  from this [rule_format, OF arr] obtain out where
    r: "snd (getTemporalMedianFilterArray ?ch 1 (Some 7) 2 False) = Inr out"
    and s: "shape out = [nat (3 - 1 - (2 - 1)), shape ?arr ! 1, shape ?arr ! 2]"
    and d: "data out = concat (map (\<lambda>inframe.
                                    median_axis0 (py_slice inframe (inframe + 2) (frames ?arr))
                                      (shape ?arr ! 1 * shape ?arr ! 2))
                                    [1..3 - 2])"
    by blast
  have "concat (map (\<lambda>inframe. median_axis0 (py_slice inframe (inframe + 2) (frames ?arr))
                                      (shape ?arr ! 1 * shape ?arr ! 2)) [1..3 - 2]) = [Finite 25]"
    by code_simp
  with d have d': "data out = [Finite 25]" by simp
  have cached: "medianArray ?chc = Some ?m \<and> \<not> False" by simp
  note e = median_validation [OF stopc, of False 3 1, THEN conjunct1, rule_format, OF cached]
  then have e': "snd (getTemporalMedianFilterArray ?chc 3 (Some 7) 1 False) = Inr ?m" by simp
  from a b c1 r s d' e' show ?thesis by simp
qed

end
